theory Spec2Isabelle
  imports Complex_Main
begin

section \<open>Data model\<close>

text \<open>
  A shallow embedding of the decision core of the Zia support assistant:
  \<^verbatim>\<open>modules/decisionEngine.js\<close>, \<^verbatim>\<open>modules/escalationManager.js\<close>, the session
  handlers of the Express application and the session part of \<^verbatim>\<open>modules/database.js\<close>.

  Conventions.
  \<^item> A JavaScript number is an exact rational (\<open>rat\<close>): the rounding of IEEE doubles is not
    modelled. A \<^verbatim>\<open>Date\<close> is its \<^verbatim>\<open>getTime()\<close> value, an \<open>int\<close> of milliseconds.
  \<^item> \<^verbatim>\<open>new Date()\<close> is the parameter \<open>now\<close> of every function that reads the clock.
  \<^item> A value that may be \<^verbatim>\<open>null\<close> is an \<open>option\<close>; dereferencing \<open>None\<close> is the
    \<^verbatim>\<open>TypeError\<close> the source would throw, a value \<open>Inl TypeError\<close> of the \<open>try\<close> body.
  \<^item> Strings are ASCII; \<^verbatim>\<open>toLowerCase\<close> maps \<open>A..Z\<close> to \<open>a..z\<close>.
  \<^item> The reason texts and the canned replies are constructors of datatypes, each one
    annotated with the text of the source.
\<close>

datatype tier = REGULAR | PRO | PRO_PLUS

record customer_info =
  customerInfoId :: string
  customerName :: string
  membershipTier :: tier
  fraudRiskScore :: rat
  complaintFrequency :: rat

record order_item =
  name :: string
  price :: rat
  quantity :: rat

record order_details =
  orderDetailsId :: string
  restaurantId :: string
  restaurantName :: string
  items :: "order_item list"
  totalAmount :: rat
  deliveryFee :: "rat option"
  orderedAt :: int
  estimatedDeliveryTime :: int
  deliveredAt :: "int option"
  restaurantCloseTime :: "int option"
  problemFlag :: bool
  refunded :: bool

datatype intentType =
  WRONG_ORDER | MISSING_ITEM | LATE_DELIVERY | REFUND_REQUEST
| ESCALATION_REQUEST | ORDER_STATUS | GENERAL_QUERY

record entities =
  orderId :: "string option"
  wrongItems :: "string list option"
  missingItems :: "string list option"
  latenessMinutes :: "rat option"

datatype fault = TypeError | DatabaseError

subsection \<open>Configuration (config/appConfig.js)\<close>

record verification_windows =
  wrongOrder :: rat
  missingItem :: rat
  lateDeliveryHours :: rat
  qualityIssueHours :: rat

record thresholds_config =
  fraudRiskScoreThreshold :: rat
  complaintFrequencyThreshold :: rat
  acceptableLateness :: rat
  redeliveryWindowMinutes :: rat
  refundEligibilityDays :: rat
  maxLateFee :: rat
  maxBonusAmount :: rat
  highValueOrder :: rat

record compensation_rates =
  slightlyLate :: rat
  moderatelyLate :: rat
  veryLate :: rat
  premiumBonus :: rat

record app_config =
  demoMode :: bool
  verificationWindows :: verification_windows
  thresholds :: thresholds_config
  compensationRates :: compensation_rates

definition config :: app_config where
  "config =
     \<lparr> demoMode = True,
       verificationWindows =
         \<lparr> wrongOrder = 60, missingItem = 60, lateDeliveryHours = 24, qualityIssueHours = 2 \<rparr>,
       thresholds =
         \<lparr> fraudRiskScoreThreshold = 7 / 10, complaintFrequencyThreshold = 5,
           acceptableLateness = 10, redeliveryWindowMinutes = 120, refundEligibilityDays = 7,
           maxLateFee = 200, maxBonusAmount = 100, highValueOrder = 1000 \<rparr>,
       compensationRates =
         \<lparr> slightlyLate = 1 / 10, moderatelyLate = 2 / 10, veryLate = 3 / 10,
           premiumBonus = 2 / 10 \<rparr> \<rparr>"

subsection \<open>Strings and dates of the JavaScript runtime\<close>

definition lowerChar :: "char \<Rightarrow> char" where
  "lowerChar c =
     (case map_of (zip ''ABCDEFGHIJKLMNOPQRSTUVWXYZ'' ''abcdefghijklmnopqrstuvwxyz'') c of
        None \<Rightarrow> c
      | Some d \<Rightarrow> d)"

definition toLowerCase :: "string \<Rightarrow> string" where
  "toLowerCase s = map lowerChar s"

fun startsWith :: "string \<Rightarrow> string \<Rightarrow> bool" where
  "startsWith s [] = True"
| "startsWith [] (c # cs) = False"
| "startsWith (x # xs) (c # cs) = (x = c \<and> startsWith xs cs)"

text \<open>\<^verbatim>\<open>String.prototype.includes\<close>: the argument occurs as a contiguous substring.\<close>

fun stringIncludes :: "string \<Rightarrow> string \<Rightarrow> bool" where
  "stringIncludes [] sub = (sub = [])"
| "stringIncludes (x # xs) sub = (startsWith (x # xs) sub \<or> stringIncludes xs sub)"

text \<open>\<^verbatim>\<open>Array.prototype.includes\<close>: some element is equal to the argument.\<close>

definition arrayIncludes :: "'a list \<Rightarrow> 'a \<Rightarrow> bool" where
  "arrayIncludes xs x = (x \<in> set xs)"

text \<open>\<^verbatim>\<open>new Date(x).getTime()\<close> for a nullable \<open>x\<close>: \<^verbatim>\<open>new Date(null)\<close> is the epoch.\<close>

definition dateOf :: "int option \<Rightarrow> int" where
  "dateOf d = (case d of None \<Rightarrow> 0 | Some t \<Rightarrow> t)"

text \<open>\<^verbatim>\<open>Math.round\<close> rounds to the nearest integer, a half towards plus infinity.\<close>

definition mathRound :: "rat \<Rightarrow> int" where
  "mathRound x = \<lfloor>x + 1 / 2\<rfloor>"

section \<open>Verification (modules/decisionEngine.js)\<close>

datatype reason =
  OrderFlagged              \<comment> \<open>'Order already flagged as problematic'\<close>
| TrustedTier               \<comment> \<open>'Trusted customer tier'\<close>
| TooLongAfterDelivery      \<comment> \<open>'Complaint received too long after delivery'\<close>
| RiskScoreExceeds          \<comment> \<open>'Customer risk score exceeds threshold'\<close>
| ReportAccepted            \<comment> \<open>'Customer report accepted'\<close>
| ItemsNotInOrder           \<comment> \<open>'Claimed missing items were not in the original order'\<close>
| OnTimeOrEarly             \<comment> \<open>'Delivery was on time or early'\<close>
| WithinAcceptableRange int \<comment> \<open>'Delivery was only N minutes late, within acceptable range'\<close>
| DeliveryWasLate int       \<comment> \<open>'Delivery was N minutes late'\<close>
| BenefitOfDoubt            \<comment> \<open>'Verification error, giving benefit of doubt to customer'\<close>

record verification_result =
  verified :: bool
  reason :: reason
  resultLatenessMinutes :: "rat option"
  validMissingItems :: "string list option"

definition result :: "bool \<Rightarrow> reason \<Rightarrow> verification_result" where
  "result v r =
     \<lparr> verified = v, reason = r, resultLatenessMinutes = None, validMissingItems = None \<rparr>"

definition lateResult :: "bool \<Rightarrow> reason \<Rightarrow> rat \<Rightarrow> verification_result" where
  "lateResult v r l =
     \<lparr> verified = v, reason = r, resultLatenessMinutes = Some l, validMissingItems = None \<rparr>"

text \<open>
  The body of the \<^verbatim>\<open>try\<close> block of \<^verbatim>\<open>verifyWrongOrderIssue\<close>. The check of the
  complaint frequency only writes a log line and has no branch here.
\<close>

definition verifyWrongOrderIssue_try ::
  "app_config \<Rightarrow> int \<Rightarrow> order_details option \<Rightarrow> string list option \<Rightarrow> customer_info option
     \<Rightarrow> fault + verification_result" where
  "verifyWrongOrderIssue_try cfg now orderDetails wrongItemsArg customerInfo =
     (case orderDetails of
        None \<Rightarrow> Inl TypeError
      | Some od \<Rightarrow>
          if problemFlag od then Inr (result True OrderFlagged)
          else
            (case customerInfo of
               None \<Rightarrow> Inl TypeError
             | Some ci \<Rightarrow>
                 if membershipTier ci = PRO \<or> membershipTier ci = PRO_PLUS
                 then Inr (result True TrustedTier)
                 else
                   let minutesSinceDelivery = of_int (now - dateOf (deliveredAt od)) / (1000 * 60)
                   in if minutesSinceDelivery > wrongOrder (verificationWindows cfg)
                      then Inr (result False TooLongAfterDelivery)
                      else if fraudRiskScore ci > fraudRiskScoreThreshold (thresholds cfg)
                      then Inr (result False RiskScoreExceeds)
                      else Inr (result True ReportAccepted)))"

definition verifyWrongOrderIssue ::
  "app_config \<Rightarrow> int \<Rightarrow> order_details option \<Rightarrow> string list option \<Rightarrow> customer_info option
     \<Rightarrow> verification_result" where
  "verifyWrongOrderIssue cfg now orderDetails wrongItemsArg customerInfo =
     (case verifyWrongOrderIssue_try cfg now orderDetails wrongItemsArg customerInfo of
        Inr r \<Rightarrow> r
      | Inl e \<Rightarrow> result True BenefitOfDoubt)"

text \<open>
  The filter of \<^verbatim>\<open>verifyMissingItemIssue\<close>: \<^verbatim>\<open>orderedItems\<close> is the array of the lowercase
  names and \<^verbatim>\<open>orderedItems.includes\<close> is the membership test of arrays.
\<close>

definition orderedItems :: "order_details \<Rightarrow> string list" where
  "orderedItems od = map (\<lambda>item. toLowerCase (name item)) (items od)"

definition filterValidMissingItems :: "order_details \<Rightarrow> string list \<Rightarrow> string list" where
  "filterValidMissingItems od claimed =
     filter (\<lambda>item. arrayIncludes (orderedItems od) (toLowerCase item)) claimed"

definition verifyMissingItemIssue_try ::
  "app_config \<Rightarrow> int \<Rightarrow> order_details option \<Rightarrow> string list option \<Rightarrow> customer_info option
     \<Rightarrow> fault + verification_result" where
  "verifyMissingItemIssue_try cfg now orderDetails missingItemsArg customerInfo =
     (case orderDetails of
        None \<Rightarrow> Inl TypeError
      | Some od \<Rightarrow>
          (case missingItemsArg of
             None \<Rightarrow> Inl TypeError
           | Some claimed \<Rightarrow>
               let valid = filterValidMissingItems od claimed
               in if length valid = 0 \<and> length claimed > 0
                  then Inr (result False ItemsNotInOrder)
                  else if problemFlag od then Inr (result True OrderFlagged)
                  else
                    (case customerInfo of
                       None \<Rightarrow> Inl TypeError
                     | Some ci \<Rightarrow>
                         if membershipTier ci = PRO \<or> membershipTier ci = PRO_PLUS
                         then Inr (result True TrustedTier)
                         else
                           let minutesSinceDelivery =
                                 of_int (now - dateOf (deliveredAt od)) / (1000 * 60)
                           in if minutesSinceDelivery > missingItem (verificationWindows cfg)
                              then Inr (result False TooLongAfterDelivery)
                              else if fraudRiskScore ci > fraudRiskScoreThreshold (thresholds cfg)
                              then Inr (result False RiskScoreExceeds)
                              else Inr ((result True ReportAccepted)
                                          \<lparr> validMissingItems := Some valid \<rparr>))))"

definition verifyMissingItemIssue ::
  "app_config \<Rightarrow> int \<Rightarrow> order_details option \<Rightarrow> string list option \<Rightarrow> customer_info option
     \<Rightarrow> verification_result" where
  "verifyMissingItemIssue cfg now orderDetails missingItemsArg customerInfo =
     (case verifyMissingItemIssue_try cfg now orderDetails missingItemsArg customerInfo of
        Inr r \<Rightarrow> r
      | Inl e \<Rightarrow> result True BenefitOfDoubt)"

text \<open>\<^verbatim>\<open>verifyLateDeliveryIssue\<close> never reads its \<^verbatim>\<open>customerInfo\<close> argument.\<close>

definition latenessOf :: "order_details \<Rightarrow> rat" where
  "latenessOf od =
     of_int (dateOf (deliveredAt od) - estimatedDeliveryTime od) / (1000 * 60)"

definition verifyLateDeliveryIssue_try ::
  "app_config \<Rightarrow> int \<Rightarrow> order_details option \<Rightarrow> customer_info option
     \<Rightarrow> fault + verification_result" where
  "verifyLateDeliveryIssue_try cfg now orderDetails customerInfo =
     (case orderDetails of
        None \<Rightarrow> Inl TypeError
      | Some od \<Rightarrow>
          let actualDeliveryTime = dateOf (deliveredAt od);
              lateness = latenessOf od
          in if lateness \<le> 0 then Inr (lateResult False OnTimeOrEarly 0)
             else if lateness < acceptableLateness (thresholds cfg)
             then Inr (lateResult False (WithinAcceptableRange (mathRound lateness)) lateness)
             else
               let hoursSinceDelivery = of_int (now - actualDeliveryTime) / (1000 * 60 * 60)
               in if hoursSinceDelivery > lateDeliveryHours (verificationWindows cfg)
                  then Inr (lateResult False TooLongAfterDelivery lateness)
                  else Inr (lateResult True (DeliveryWasLate (mathRound lateness)) lateness))"

definition verifyLateDeliveryIssue ::
  "app_config \<Rightarrow> int \<Rightarrow> order_details option \<Rightarrow> customer_info option \<Rightarrow> verification_result"
  where
  "verifyLateDeliveryIssue cfg now orderDetails customerInfo =
     (case verifyLateDeliveryIssue_try cfg now orderDetails customerInfo of
        Inr r \<Rightarrow> r
      | Inl e \<Rightarrow> lateResult True BenefitOfDoubt 0)"

subsection \<open>Refund eligibility\<close>

text \<open>The parameter \<^verbatim>\<open>reason\<close> of \<^verbatim>\<open>checkRefundEligibility\<close> is never read and is left out.\<close>

datatype eligibility_reason =
  AlreadyRefunded           \<comment> \<open>'Order has already been refunded'\<close>
| OrderTooOld rat           \<comment> \<open>'Order is more than N days old'\<close>
| EligibilityError          \<comment> \<open>'Error determining eligibility'\<close>

record eligibility_result =
  eligible :: bool
  eligibilityReason :: "eligibility_reason option"
  refundAmount :: "rat option"
  percentage :: "rat option"

definition notEligible :: "eligibility_reason \<Rightarrow> eligibility_result" where
  "notEligible r =
     \<lparr> eligible = False, eligibilityReason = Some r, refundAmount = None, percentage = None \<rparr>"

definition checkRefundEligibility_try ::
  "app_config \<Rightarrow> int \<Rightarrow> order_details option \<Rightarrow> customer_info option
     \<Rightarrow> fault + eligibility_result" where
  "checkRefundEligibility_try cfg now orderDetails customerInfo =
     (case orderDetails of
        None \<Rightarrow> Inl TypeError
      | Some od \<Rightarrow>
          if refunded od then Inr (notEligible AlreadyRefunded)
          else
            let daysSinceOrder = of_int (now - orderedAt od) / (1000 * 60 * 60 * 24)
            in if daysSinceOrder > refundEligibilityDays (thresholds cfg)
               then Inr (notEligible (OrderTooOld (refundEligibilityDays (thresholds cfg))))
               else
                 (case customerInfo of
                    None \<Rightarrow> Inl TypeError
                  | Some ci \<Rightarrow>
                      let refundPercentage =
                            (if membershipTier ci \<noteq> PRO \<and> membershipTier ci \<noteq> PRO_PLUS
                             then (if daysSinceOrder > 3 then 50
                                   else if daysSinceOrder > 1 then 75 else 100)
                             else 100)
                      in Inr \<lparr> eligible = True, eligibilityReason = None,
                               refundAmount = Some ((totalAmount od * refundPercentage) / 100),
                               percentage = Some refundPercentage \<rparr>))"

definition checkRefundEligibility ::
  "app_config \<Rightarrow> int \<Rightarrow> order_details option \<Rightarrow> customer_info option \<Rightarrow> eligibility_result"
  where
  "checkRefundEligibility cfg now orderDetails customerInfo =
     (case checkRefundEligibility_try cfg now orderDetails customerInfo of
        Inr r \<Rightarrow> r
      | Inl e \<Rightarrow> notEligible EligibilityError)"

section \<open>Solution decision (modules/decisionEngine.js)\<close>

datatype solutionType = REFUND | REDELIVERY | CREDIT

datatype solution_reason =
  WrongItemsInOrder         \<comment> \<open>'Wrong items in order'\<close>
| MissingItemsInOrder       \<comment> \<open>'Missing items in order'\<close>
| ExtremeDelay int          \<comment> \<open>'Extreme delivery delay (N minutes late)'\<close>
| DeliveryDelay int         \<comment> \<open>'Delivery delay (N minutes late)'\<close>
| Inconvenience             \<comment> \<open>'Compensation for inconvenience'\<close>
| StandardCompensation      \<comment> \<open>'Standard compensation'\<close>

record solution =
  solutionType :: solutionType
  amount :: rat
  solutionReason :: solution_reason
  bonusAmount :: "rat option"
  estimatedTime :: "rat option"

definition mkSolution :: "solutionType \<Rightarrow> rat \<Rightarrow> solution_reason \<Rightarrow> solution" where
  "mkSolution t a r =
     \<lparr> solutionType = t, amount = a, solutionReason = r, bonusAmount = None,
       estimatedTime = None \<rparr>"

text \<open>
  The \<^verbatim>\<open>forEach\<close> loop of \<^verbatim>\<open>calculateAffectedItemsAmount\<close>: the running total over the
  items of the order, in order.
\<close>

fun affectedTotal :: "string list \<Rightarrow> order_item list \<Rightarrow> rat \<Rightarrow> rat" where
  "affectedTotal lowerCaseItemNames [] acc = acc"
| "affectedTotal lowerCaseItemNames (item # rest) acc =
     affectedTotal lowerCaseItemNames rest
       (if list_ex (\<lambda>n. stringIncludes (toLowerCase (name item)) n) lowerCaseItemNames
        then acc + price item * quantity item
        else acc)"

definition calculateAffectedItemsAmount :: "order_details \<Rightarrow> string list option \<Rightarrow> rat" where
  "calculateAffectedItemsAmount od itemNames =
     (case itemNames of
        None \<Rightarrow> 0
      | Some names \<Rightarrow>
          if length names = 0 then 0
          else
            let lowerCaseItemNames = map toLowerCase names;
                matched = affectedTotal lowerCaseItemNames (items od) 0
            in if matched = 0 \<and> length names > 0 then totalAmount od * (3 / 10) else matched)"

definition issueReason :: "intentType \<Rightarrow> solution_reason" where
  "issueReason issueType =
     (if issueType = WRONG_ORDER then WrongItemsInOrder else MissingItemsInOrder)"

definition decideSolution_try ::
  "app_config \<Rightarrow> int \<Rightarrow> intentType \<Rightarrow> order_details option \<Rightarrow> customer_info option
     \<Rightarrow> entities option \<Rightarrow> fault + solution" where
  "decideSolution_try cfg now issueType orderDetails customerInfo ents =
     (case orderDetails of
        None \<Rightarrow> Inl TypeError
      | Some od \<Rightarrow>
          let restaurantIsOpen =
                (case restaurantCloseTime od of None \<Rightarrow> False | Some t \<Rightarrow> now < t);
              minutesSinceDelivery =
                (case deliveredAt od of
                   None \<Rightarrow> 0
                 | Some t \<Rightarrow> of_int (now - t) / (1000 * 60));
              redeliveryIsPossible =
                (restaurantIsOpen
                 \<and> minutesSinceDelivery < redeliveryWindowMinutes (thresholds cfg))
          in
          if issueType = WRONG_ORDER \<or> issueType = MISSING_ITEM then
            (case ents of
               None \<Rightarrow> Inl TypeError
             | Some e \<Rightarrow>
                 let affectedAmount =
                       (if issueType = WRONG_ORDER
                        then (case wrongItems e of
                                None \<Rightarrow> totalAmount od
                              | Some ws \<Rightarrow>
                                  if length ws > 0
                                  then calculateAffectedItemsAmount od (wrongItems e)
                                  else totalAmount od)
                        else calculateAffectedItemsAmount od (missingItems e))
                 in if redeliveryIsPossible
                    then Inr ((mkSolution REDELIVERY affectedAmount (issueReason issueType))
                                \<lparr> estimatedTime := Some 35 \<rparr>)
                    else
                      (case customerInfo of
                         None \<Rightarrow> Inl TypeError
                       | Some ci \<Rightarrow>
                           if membershipTier ci = PRO \<or> membershipTier ci = PRO_PLUS
                           then
                             let bonus = min (affectedAmount * premiumBonus (compensationRates cfg))
                                             (maxBonusAmount (thresholds cfg))
                             in Inr ((mkSolution CREDIT (affectedAmount + bonus)
                                        (issueReason issueType))
                                       \<lparr> bonusAmount := Some bonus \<rparr>)
                           else Inr (mkSolution REFUND affectedAmount (issueReason issueType))))
          else if issueType = LATE_DELIVERY then
            (case ents of
               None \<Rightarrow> Inl TypeError
             | Some e \<Rightarrow>
                 let lateness = (case latenessMinutes e of None \<Rightarrow> 0 | Some l \<Rightarrow> l);
                     compensationRate =
                       (if lateness > 60 then veryLate (compensationRates cfg)
                        else if lateness > 30 then moderatelyLate (compensationRates cfg)
                        else if lateness > 15 then slightlyLate (compensationRates cfg)
                        else 0);
                     compensationAmount =
                       min (totalAmount od * compensationRate) (maxLateFee (thresholds cfg))
                 in if lateness > 90
                    then Inr (mkSolution REFUND (totalAmount od)
                               (ExtremeDelay (mathRound lateness)))
                    else Inr (mkSolution CREDIT compensationAmount
                               (DeliveryDelay (mathRound lateness))))
          else
            Inr (mkSolution CREDIT
                   (case deliveryFee od of
                      None \<Rightarrow> 50
                    | Some f \<Rightarrow> if f = 0 then 50 else f)
                   Inconvenience))"

definition decideSolution ::
  "app_config \<Rightarrow> int \<Rightarrow> intentType \<Rightarrow> order_details option \<Rightarrow> customer_info option
     \<Rightarrow> entities option \<Rightarrow> solution" where
  "decideSolution cfg now issueType orderDetails customerInfo ents =
     (case decideSolution_try cfg now issueType orderDetails customerInfo ents of
        Inr s \<Rightarrow> s
      | Inl e \<Rightarrow> mkSolution CREDIT 100 StandardCompensation)"

section \<open>Sessions\<close>

datatype messageRole = User | Assistant

record message =
  role :: messageRole
  content :: string
  timestamp :: int

record resolution =
  resolutionType :: solutionType
  resolutionOrderId :: string
  resolutionAmount :: rat
  resolutionTimestamp :: int
  success :: bool

datatype sessionStatus = Active | Ended

record session =
  sessionId :: string
  customerId :: string
  customerInfo :: "customer_info option"
  orderIds :: "string list"
  orderDetails :: "order_details list"
  conversationHistory :: "message list"
  createdAt :: int
  lastActivityAt :: int
  status :: sessionStatus
  escalated :: bool
  resolutions :: "resolution list"

section \<open>Escalation policy (modules/escalationManager.js)\<close>

definition frustrationIndicators :: "string list" where
  "frustrationIndicators =
     [''speak to a human'', ''speak to a person'', ''talk to a manager'',
      ''talk to a supervisor'', ''this is ridiculous'', ''this is unacceptable'',
      ''unhelpful'', ''useless'', ''waste of time'', ''are you a bot'']"

definition userMessages :: "session \<Rightarrow> string list" where
  "userMessages s =
     map (\<lambda>msg. toLowerCase (content msg))
       (filter (\<lambda>msg. role msg = User) (conversationHistory s))"

definition isFrustrated :: "string \<Rightarrow> bool" where
  "isFrustrated msg = list_ex (\<lambda>indicator. stringIncludes msg indicator) frustrationIndicators"

definition frustrationCount :: "session \<Rightarrow> nat" where
  "frustrationCount s =
     foldl (\<lambda>count msg. if isFrustrated msg then count + 1 else count) 0 (userMessages s)"

definition hasHighValueOrder :: "app_config \<Rightarrow> session \<Rightarrow> bool" where
  "hasHighValueOrder cfg s =
     (length (orderDetails s) > 0
      \<and> list_ex (\<lambda>order. totalAmount order > highValueOrder (thresholds cfg)) (orderDetails s))"

definition shouldAutoEscalate_try :: "app_config \<Rightarrow> session \<Rightarrow> fault + bool" where
  "shouldAutoEscalate_try cfg s =
     (case customerInfo s of
        None \<Rightarrow> Inl TypeError
      | Some ci \<Rightarrow>
          if membershipTier ci = PRO_PLUS then Inr True
          else if frustrationCount s \<ge> 2 then Inr True
          else if hasHighValueOrder cfg s then Inr True
          else if length (resolutions s) \<ge> 2 then Inr True
          else Inr False)"

definition shouldAutoEscalate :: "app_config \<Rightarrow> session \<Rightarrow> bool" where
  "shouldAutoEscalate cfg s =
     (case shouldAutoEscalate_try cfg s of Inr b \<Rightarrow> b | Inl e \<Rightarrow> False)"

datatype priority = HIGH | MEDIUM | LOW

definition determinePriority_try :: "app_config \<Rightarrow> session \<Rightarrow> fault + priority" where
  "determinePriority_try cfg s =
     (case customerInfo s of
        None \<Rightarrow> Inl TypeError
      | Some ci \<Rightarrow>
          if membershipTier ci = PRO_PLUS then Inr HIGH
          else if membershipTier ci = PRO then Inr HIGH
          else if length (conversationHistory s) > 10 then Inr HIGH
          else if hasHighValueOrder cfg s then Inr HIGH
          else if complaintFrequency ci > 3 then Inr HIGH
          else Inr MEDIUM)"

definition determinePriority :: "app_config \<Rightarrow> session \<Rightarrow> priority" where
  "determinePriority cfg s =
     (case determinePriority_try cfg s of Inr p \<Rightarrow> p | Inl e \<Rightarrow> MEDIUM)"

section \<open>Session store and request handlers\<close>

text \<open>
  The process holds the object \<^verbatim>\<open>sessions = {}\<close> (demo mode); the persisted mode keeps
  one row for each session in the table \<^verbatim>\<open>sessions\<close> of the database.

  \<^verbatim>\<open>sessions\<close> is a plain object: \<^verbatim>\<open>sessions[sessionId]\<close> finds the own keys, which are
  the stored sessions, and also the properties that every object inherits from
  \<^verbatim>\<open>Object.prototype\<close>. An inherited value is an object without
  \<^verbatim>\<open>conversationHistory\<close>; what the message handler writes to its \<^verbatim>\<open>lastActivityAt\<close>
  is kept in \<open>inheritedLastActivityAt\<close>, by key. A write through the key \<^verbatim>\<open>__proto__\<close>
  goes to \<^verbatim>\<open>Object.prototype\<close> itself, which makes \<^verbatim>\<open>lastActivityAt\<close> one more inherited
  key, holding a new date. The session ids that \<^verbatim>\<open>uuidv4\<close> generates never name an
  inherited property.

  The table is a map from session ids to rows. A \<^verbatim>\<open>select\<close> with \<^verbatim>\<open>.single()\<close> that finds
  no row yields an error, which the functions of the database module rethrow; an
  \<^verbatim>\<open>update\<close> that finds no row changes nothing. Connection errors of the database
  service and the analytics table written by \<^verbatim>\<open>logResolution\<close> are not modelled.
\<close>

record store =
  sessions :: "string \<rightharpoonup> session"
  inheritedLastActivityAt :: "string \<rightharpoonup> int"
  sessionsTable :: "string \<rightharpoonup> session"

definition objectPrototypeKeys :: "string list" where
  "objectPrototypeKeys =
     [''constructor'', ''__proto__'', ''hasOwnProperty'', ''isPrototypeOf'',
      ''propertyIsEnumerable'', ''toLocaleString'', ''toString'', ''valueOf'',
      ''__defineGetter__'', ''__defineSetter__'', ''__lookupGetter__'', ''__lookupSetter__'']"

definition isInheritedKey :: "store \<Rightarrow> string \<Rightarrow> bool" where
  "isInheritedKey st k =
     (arrayIncludes objectPrototypeKeys k
      \<or> (k = ''lastActivityAt''
          \<and> (case inheritedLastActivityAt st ''__proto__'' of None \<Rightarrow> False | Some t \<Rightarrow> True)))"

definition writeInherited :: "int \<Rightarrow> string \<Rightarrow> (string \<rightharpoonup> int) \<Rightarrow> (string \<rightharpoonup> int)" where
  "writeInherited now k written =
     (if k = ''__proto__'' then (written(k \<mapsto> now))(''lastActivityAt'' := None)
      else written(k \<mapsto> now))"

subsection \<open>modules/database.js\<close>

definition createSession :: "app_config \<Rightarrow> int \<Rightarrow> session \<Rightarrow> store \<Rightarrow> store" where
  "createSession cfg now sessionData st =
     (if demoMode cfg then st
      else st \<lparr> sessionsTable := (sessionsTable st)
                 (sessionId sessionData \<mapsto>
                    sessionData \<lparr> createdAt := now, lastActivityAt := now, status := Active,
                                  escalated := False, resolutions := [] \<rparr>) \<rparr>)"

definition getSession :: "app_config \<Rightarrow> store \<Rightarrow> string \<Rightarrow> fault + session option" where
  "getSession cfg st sid =
     (if demoMode cfg then Inr None
      else
        (case sessionsTable st sid of
           None \<Rightarrow> Inl DatabaseError
         | Some row \<Rightarrow> Inr (Some row)))"

record session_update =
  updateStatus :: "sessionStatus option"
  updateEscalated :: "bool option"

definition updateSession :: "app_config \<Rightarrow> int \<Rightarrow> string \<Rightarrow> session_update \<Rightarrow> store \<Rightarrow> store"
  where
  "updateSession cfg now sid upd st =
     (if demoMode cfg then st
      else
        (case sessionsTable st sid of
           None \<Rightarrow> st
         | Some row \<Rightarrow>
             let row1 = (case updateStatus upd of None \<Rightarrow> row | Some v \<Rightarrow> row \<lparr> status := v \<rparr>);
                 row2 = (case updateEscalated upd of
                           None \<Rightarrow> row1
                         | Some v \<Rightarrow> row1 \<lparr> escalated := v \<rparr>)
             in st \<lparr> sessionsTable := (sessionsTable st)(sid \<mapsto> row2 \<lparr> lastActivityAt := now \<rparr>) \<rparr>))"

definition addMessageToSession ::
  "app_config \<Rightarrow> int \<Rightarrow> string \<Rightarrow> message \<Rightarrow> store \<Rightarrow> fault + store" where
  "addMessageToSession cfg now sid msg st =
     (if demoMode cfg then Inr st
      else
        (case sessionsTable st sid of
           None \<Rightarrow> Inl DatabaseError
         | Some row \<Rightarrow>
             Inr (st \<lparr> sessionsTable := (sessionsTable st)
                        (sid \<mapsto> row \<lparr> conversationHistory := conversationHistory row @ [msg],
                                       lastActivityAt := now \<rparr>) \<rparr>)))"

definition addResolutionToSession ::
  "app_config \<Rightarrow> int \<Rightarrow> string \<Rightarrow> resolution \<Rightarrow> store \<Rightarrow> fault + store" where
  "addResolutionToSession cfg now sid res st =
     (if demoMode cfg then Inr st
      else
        (case sessionsTable st sid of
           None \<Rightarrow> Inl DatabaseError
         | Some row \<Rightarrow>
             Inr (st \<lparr> sessionsTable := (sessionsTable st)
                        (sid \<mapsto> row \<lparr> resolutions := resolutions row @ [res],
                                       lastActivityAt := now \<rparr>) \<rparr>)))"

subsection \<open>The Express application\<close>

datatype response =
  NoOrdersReply           \<comment> \<open>"I don't see any recent orders associated with your account. ..."\<close>
| WrongOrderReply rat string
                          \<comment> \<open>"... I've processed a full refund of (amount) for your order from
                              (restaurant). ..."\<close>
| TechnicalIssueReply     \<comment> \<open>"I apologize, but I'm experiencing a technical issue ..."\<close>
| MissingItemReply        \<comment> \<open>"I understand there are missing items in your order. ..."\<close>
| LateDeliveryReply       \<comment> \<open>"I'm sorry your delivery was delayed. As compensation, ..."\<close>
| RefundReply             \<comment> \<open>"I've processed a full refund for your order. ..."\<close>
| EscalationReply         \<comment> \<open>"I understand you'd like to speak with a human agent. ..."\<close>
| OrderStatusReply        \<comment> \<open>"Your order is currently being prepared by the restaurant ..."\<close>
| GeneralReply            \<comment> \<open>"Thank you for your message. How can I assist you ..."\<close>

text \<open>
  The collaborators of the handlers: the order service (\<^verbatim>\<open>orderManager.getOrderDetails\<close>,
  which always returns an order) and the text of a reply.
\<close>

record collaborators =
  getOrderDetails :: "string \<Rightarrow> order_details"
  render :: "response \<Rightarrow> string"

datatype http_error = NotFound | InternalError

record reply =
  replyResponse :: response
  replyEscalated :: bool

text \<open>
  In demo mode the variable \<^verbatim>\<open>session\<close> of a handler is the object stored in
  \<^verbatim>\<open>sessions\<close>, so what the handler assigns to it is stored (\<open>commit\<close>); in persisted mode
  it is a copy of the row, and only the functions of the database module change the row.
\<close>

text \<open>
  What the handlers find for a session id: a session, a value inherited by the object
  \<^verbatim>\<open>sessions\<close>, or nothing (\<^verbatim>\<open>!session\<close>); the lookup of the persisted mode can throw.
\<close>

datatype session_lookup = OwnSession session | InheritedValue | NoSession

definition lookupSession :: "app_config \<Rightarrow> store \<Rightarrow> string \<Rightarrow> fault + session_lookup" where
  "lookupSession cfg st sid =
     (if demoMode cfg
      then Inr (case sessions st sid of
                  Some s \<Rightarrow> OwnSession s
                | None \<Rightarrow> if isInheritedKey st sid then InheritedValue else NoSession)
      else
        (case getSession cfg st sid of
           Inl e \<Rightarrow> Inl e
         | Inr None \<Rightarrow> Inr NoSession
         | Inr (Some s) \<Rightarrow> Inr (OwnSession s)))"

definition commit :: "app_config \<Rightarrow> string \<Rightarrow> session \<Rightarrow> store \<Rightarrow> store" where
  "commit cfg sid s st = (if demoMode cfg then st \<lparr> sessions := (sessions st)(sid \<mapsto> s) \<rparr> else st)"

definition pushMessage ::
  "app_config \<Rightarrow> int \<Rightarrow> string \<Rightarrow> message \<Rightarrow> session \<Rightarrow> store \<Rightarrow> fault + session \<times> store"
  where
  "pushMessage cfg now sid msg s st =
     (if demoMode cfg
      then Inr (s \<lparr> conversationHistory := conversationHistory s @ [msg] \<rparr>, st)
      else
        (case addMessageToSession cfg now sid msg st of
           Inl e \<Rightarrow> Inl e
         | Inr st' \<Rightarrow> Inr (s, st')))"

definition resolveOrderId :: "session \<Rightarrow> entities \<Rightarrow> string option" where
  "resolveOrderId s ents =
     (let fallback = (case orderIds s of [] \<Rightarrow> None | first # rest \<Rightarrow> Some first);
          chosen = (case orderId ents of
                      None \<Rightarrow> fallback
                    | Some i \<Rightarrow> if i = [] then fallback else Some i)
      in case chosen of
           None \<Rightarrow> None
         | Some i \<Rightarrow> if i = [] then None else Some i)"

definition handleWrongOrderIntent ::
  "app_config \<Rightarrow> collaborators \<Rightarrow> int \<Rightarrow> session \<Rightarrow> entities \<Rightarrow> store
     \<Rightarrow> response \<times> session \<times> store" where
  "handleWrongOrderIntent cfg ext now s ents st =
     (case resolveOrderId s ents of
        None \<Rightarrow> (NoOrdersReply, s, st)
      | Some oid \<Rightarrow>
          let od = getOrderDetails ext oid;
              res = \<lparr> resolutionType = REFUND, resolutionOrderId = oid,
                      resolutionAmount = totalAmount od, resolutionTimestamp = now,
                      success = True \<rparr>
          in if demoMode cfg
             then (WrongOrderReply (totalAmount od) (restaurantName od),
                   s \<lparr> resolutions := resolutions s @ [res] \<rparr>, st)
             else
               (case addResolutionToSession cfg now (sessionId s) res st of
                  Inl e \<Rightarrow> (TechnicalIssueReply, s, st)
                | Inr st' \<Rightarrow> (WrongOrderReply (totalAmount od) (restaurantName od), s, st')))"

definition handleIntent ::
  "app_config \<Rightarrow> collaborators \<Rightarrow> int \<Rightarrow> intentType \<Rightarrow> session \<Rightarrow> entities \<Rightarrow> store
     \<Rightarrow> response \<times> session \<times> store" where
  "handleIntent cfg ext now intent s ents st =
     (case intent of
        WRONG_ORDER \<Rightarrow> handleWrongOrderIntent cfg ext now s ents st
      | MISSING_ITEM \<Rightarrow> (MissingItemReply, s, st)
      | LATE_DELIVERY \<Rightarrow> (LateDeliveryReply, s, st)
      | REFUND_REQUEST \<Rightarrow> (RefundReply, s, st)
      | ESCALATION_REQUEST \<Rightarrow> (EscalationReply, s \<lparr> escalated := True \<rparr>, st)
      | ORDER_STATUS \<Rightarrow> (OrderStatusReply, s, st)
      | GENERAL_QUERY \<Rightarrow> (GeneralReply, s, st))"

text \<open>
  \<^verbatim>\<open>POST /api/conversation/message\<close>. The intent and the entities are what the language
  processor returns for the message. A lookup that throws is answered 500. For an
  inherited value the handler assigns \<^verbatim>\<open>lastActivityAt\<close> and then throws at
  \<^verbatim>\<open>session.conversationHistory.push\<close>, which is answered 500 too.
\<close>

definition postMessage ::
  "app_config \<Rightarrow> collaborators \<Rightarrow> int \<Rightarrow> intentType \<Rightarrow> entities \<Rightarrow> string \<Rightarrow> string \<Rightarrow> store
     \<Rightarrow> (http_error + reply) \<times> store" where
  "postMessage cfg ext now intent ents sid text st =
     (case lookupSession cfg st sid of
        Inl e \<Rightarrow> (Inl InternalError, st)
      | Inr NoSession \<Rightarrow> (Inl NotFound, st)
      | Inr InheritedValue \<Rightarrow>
          (Inl InternalError,
           st \<lparr> inheritedLastActivityAt := writeInherited now sid (inheritedLastActivityAt st) \<rparr>)
      | Inr (OwnSession s0) \<Rightarrow>
          let s1 = s0 \<lparr> lastActivityAt := now \<rparr>;
              userMessage = \<lparr> role = User, content = text, timestamp = now \<rparr>
          in (case pushMessage cfg now sid userMessage s1 st of
                Inl e \<Rightarrow> (Inl InternalError, commit cfg sid s1 st)
              | Inr (s2, st2) \<Rightarrow>
                  (case handleIntent cfg ext now intent s2 ents st2 of
                     (resp, s3, st3) \<Rightarrow>
                       (let assistantMessage =
                              \<lparr> role = Assistant, content = render ext resp, timestamp = now \<rparr>
                        in (case pushMessage cfg now sid assistantMessage s3 st3 of
                              Inl e \<Rightarrow> (Inl InternalError, commit cfg sid s3 st3)
                            | Inr (s4, st4) \<Rightarrow>
                                (Inr \<lparr> replyResponse = resp, replyEscalated = escalated s4 \<rparr>,
                                 commit cfg sid s4 st4))))))"

text \<open>
  \<^verbatim>\<open>POST /api/conversation/end\<close>. For an inherited value the handler throws at
  \<^verbatim>\<open>session.conversationHistory.length\<close>, before it deletes anything.
\<close>

definition endConversation ::
  "app_config \<Rightarrow> int \<Rightarrow> string \<Rightarrow> store \<Rightarrow> (http_error + unit) \<times> store" where
  "endConversation cfg now sid st =
     (case lookupSession cfg st sid of
        Inl e \<Rightarrow> (Inl InternalError, st)
      | Inr NoSession \<Rightarrow> (Inl NotFound, st)
      | Inr InheritedValue \<Rightarrow> (Inl InternalError, st)
      | Inr (OwnSession s) \<Rightarrow>
          if demoMode cfg
          then (Inr (), st \<lparr> sessions := (sessions st)(sid := None) \<rparr>)
          else (Inr (),
                updateSession cfg now sid
                  \<lparr> updateStatus = Some Ended, updateEscalated = None \<rparr> st))"

text \<open>
  \<^verbatim>\<open>POST /api/conversation/start\<close>. The generated session id, the customer information
  and the welcome text come from collaborators that are parameters here.
\<close>

definition startConversation ::
  "app_config \<Rightarrow> collaborators \<Rightarrow> int \<Rightarrow> string \<Rightarrow> string \<Rightarrow> string list
     \<Rightarrow> customer_info option \<Rightarrow> string \<Rightarrow> store \<Rightarrow> store" where
  "startConversation cfg ext now sid cust oids info welcome st =
     (let sessionData =
            \<lparr> sessionId = sid, customerId = cust, customerInfo = info, orderIds = oids,
              orderDetails = (if length oids > 0 then map (getOrderDetails ext) oids else []),
              conversationHistory = [], createdAt = now, lastActivityAt = now,
              status = Active, escalated = False, resolutions = [] \<rparr>;
          st1 = (if demoMode cfg
                 then st \<lparr> sessions := (sessions st)(sid \<mapsto> sessionData) \<rparr>
                 else createSession cfg now sessionData st);
          assistantMessage = \<lparr> role = Assistant, content = welcome, timestamp = now \<rparr>
      in if demoMode cfg
         then st1 \<lparr> sessions := (sessions st1)
                     (sid \<mapsto> sessionData \<lparr> conversationHistory := [assistantMessage] \<rparr>) \<rparr>
         else (case addMessageToSession cfg now sid assistantMessage st1 of
                 Inl e \<Rightarrow> st1
               | Inr st2 \<Rightarrow> st2))"

section \<open>Observations used in the statements\<close>

text \<open>The value of \<^verbatim>\<open>entities.latenessMinutes || 0\<close>.\<close>

definition suppliedLateness :: "entities \<Rightarrow> rat" where
  "suppliedLateness e = (case latenessMinutes e of None \<Rightarrow> 0 | Some l \<Rightarrow> l)"

text \<open>The resolution that \<^verbatim>\<open>handleWrongOrderIntent\<close> records for an order id.\<close>

definition refundOf :: "collaborators \<Rightarrow> int \<Rightarrow> string \<Rightarrow> resolution" where
  "refundOf ext now oid =
     \<lparr> resolutionType = REFUND, resolutionOrderId = oid,
       resolutionAmount = totalAmount (getOrderDetails ext oid), resolutionTimestamp = now,
       success = True \<rparr>"

text \<open>The logs of a session as the lookup of the handlers finds them.\<close>

definition resolutionsOf :: "app_config \<Rightarrow> store \<Rightarrow> string \<Rightarrow> resolution list" where
  "resolutionsOf cfg st sid =
     (case lookupSession cfg st sid of Inr (OwnSession s) \<Rightarrow> resolutions s | _ \<Rightarrow> [])"

definition historyOf :: "app_config \<Rightarrow> store \<Rightarrow> string \<Rightarrow> message list" where
  "historyOf cfg st sid =
     (case lookupSession cfg st sid of
        Inr (OwnSession s) \<Rightarrow> conversationHistory s
      | _ \<Rightarrow> [])"

section \<open>What the specification says, where it is compared with the code\<close>

text \<open>
  The item-plausibility filter in the words of the specification: a claimed item is kept
  when its lowercase name is a substring of the lowercase name of an ordered item.
\<close>

definition filterValidMissingItems_spec :: "order_details \<Rightarrow> string list \<Rightarrow> string list" where
  "filterValidMissingItems_spec od claimed =
     filter (\<lambda>item. list_ex (\<lambda>ordered. stringIncludes ordered (toLowerCase item))
                       (orderedItems od)) claimed"

text \<open>
  The affected amount in the words of the specification: the sum over the matched items,
  30 percent of the order total when the claim set is not empty and no item matches,
  0 for an empty claim set.
\<close>

definition itemMatches :: "string list \<Rightarrow> order_item \<Rightarrow> bool" where
  "itemMatches names item =
     list_ex (\<lambda>n. stringIncludes (toLowerCase (name item)) n) (map toLowerCase names)"

definition affectedAmount_spec :: "order_details \<Rightarrow> string list \<Rightarrow> rat" where
  "affectedAmount_spec od names =
     (if names = [] then 0
      else if filter (itemMatches names) (items od) = [] then totalAmount od * (3 / 10)
      else sum_list (map (\<lambda>item. price item * quantity item)
                       (filter (itemMatches names) (items od))))"



section \<open>Concrete inputs\<close>

text \<open>Customers: a regular one, one with a risk score of 0.9, and a PRO_PLUS member.\<close>

definition regularCustomer :: customer_info where
  "regularCustomer =
     \<lparr> customerInfoId = ''cust_12345'', customerName = ''Asha Rao'', membershipTier = REGULAR,
       fraudRiskScore = 1 / 10, complaintFrequency = 1 \<rparr>"

definition riskyCustomer :: customer_info where
  "riskyCustomer = regularCustomer \<lparr> fraudRiskScore := 9 / 10 \<rparr>"

definition proPlusCustomer :: customer_info where
  "proPlusCustomer = regularCustomer \<lparr> membershipTier := PRO_PLUS \<rparr>"

text \<open>
  An order of one pizza, estimated for minute 30 and delivered at minute 40 (times in
  milliseconds): exactly ten minutes late.
\<close>

definition pizzaOrder :: order_details where
  "pizzaOrder =
     \<lparr> orderDetailsId = ''order_67890'', restaurantId = ''rest_3'', restaurantName = ''Dominos'',
       items = [\<lparr> name = ''Margherita Pizza'', price = 299, quantity = 1 \<rparr>],
       totalAmount = 500, deliveryFee = Some 49, orderedAt = 0,
       estimatedDeliveryTime = 1800000, deliveredAt = Some 2400000,
       restaurantCloseTime = None, problemFlag = False, refunded = False \<rparr>"


text \<open>The same order delivered at minute 60: thirty minutes late.\<close>

definition latePizzaOrder :: order_details where
  "latePizzaOrder = pizzaOrder \<lparr> deliveredAt := Some 3600000 \<rparr>"

text \<open>The same order delivered at minute 25 (five minutes early) and at minute 36.5.\<close>

definition earlyPizzaOrder :: order_details where
  "earlyPizzaOrder = pizzaOrder \<lparr> deliveredAt := Some 1500000 \<rparr>"

definition slightlyLatePizzaOrder :: order_details where
  "slightlyLatePizzaOrder = pizzaOrder \<lparr> deliveredAt := Some 2190000 \<rparr>"

text \<open>An order with a complimentary item, priced 0.\<close>

definition freeDipOrder :: order_details where
  "freeDipOrder =
     pizzaOrder \<lparr> items := [\<lparr> name = ''Margherita Pizza'', price = 500, quantity = 1 \<rparr>,
                              \<lparr> name = ''Free Dip'', price = 0, quantity = 1 \<rparr>] \<rparr>"


text \<open>Entities: nothing extracted, a supplied lateness, and a missing pizza.\<close>

definition noEntities :: entities where
  "noEntities =
     \<lparr> orderId = None, wrongItems = Some [], missingItems = Some [], latenessMinutes = None \<rparr>"

definition entitiesLate :: "rat \<Rightarrow> entities" where
  "entitiesLate l = noEntities \<lparr> latenessMinutes := Some l \<rparr>"

definition missingPizzaEntities :: entities where
  "missingPizzaEntities = noEntities \<lparr> missingItems := Some [''Margherita Pizza''] \<rparr>"

text \<open>An order service that returns the pizza order for every id.\<close>

definition demoCollaborators :: collaborators where
  "demoCollaborators = \<lparr> getOrderDetails = (\<lambda>oid. pizzaOrder), render = (\<lambda>r. ''reply'') \<rparr>"


definition freshSession :: "customer_info option \<Rightarrow> session" where
  "freshSession info =
     \<lparr> sessionId = ''s1'', customerId = ''cust_12345'', customerInfo = info,
       orderIds = [''order_67890''], orderDetails = [pizzaOrder], conversationHistory = [],
       createdAt = 0, lastActivityAt = 0, status = Active, escalated = False,
       resolutions = [] \<rparr>"

definition sampleResolution :: resolution where
  "sampleResolution =
     \<lparr> resolutionType = REFUND, resolutionOrderId = ''order_67890'', resolutionAmount = 500,
       resolutionTimestamp = 0, success = True \<rparr>"

definition orphanSession :: session where
  "orphanSession = (freshSession None) \<lparr> resolutions := [sampleResolution, sampleResolution] \<rparr>"




text \<open>Stores; the persisted configuration is the configuration with demo mode off.\<close>

definition emptyStore :: store where
  "emptyStore =
     \<lparr> sessions = Map.empty, inheritedLastActivityAt = Map.empty, sessionsTable = Map.empty \<rparr>"

definition demoStore :: "customer_info \<Rightarrow> store" where
  "demoStore ci = emptyStore \<lparr> sessions := [''s1'' \<mapsto> freshSession (Some ci)] \<rparr>"

definition persistedConfig :: app_config where
  "persistedConfig = config \<lparr> demoMode := False \<rparr>"

text \<open>A conversation in persisted mode: started, ended at time 1000, then a wrong-order message at time 2000.\<close>

definition persistedStarted :: store where
  "persistedStarted =
     startConversation persistedConfig demoCollaborators 0 ''s1'' ''cust_12345''
       [''order_67890''] (Some regularCustomer) ''welcome'' emptyStore"

definition persistedEnded :: "(http_error + unit) \<times> store" where
  "persistedEnded = endConversation persistedConfig 1000 ''s1'' persistedStarted"

definition persistedPosted :: "(http_error + reply) \<times> store" where
  "persistedPosted =
     postMessage persistedConfig demoCollaborators 2000 WRONG_ORDER noEntities ''s1''
       ''my order is wrong'' (snd persistedEnded)"

section \<open>Verification: the fail-open default\<close>

text \<open>
  Where each \<^verbatim>\<open>try\<close> body throws: a missing order, a missing claim list, or a missing
  customer once the checks before the first use of the customer have passed.
\<close>

lemma verifyWrongOrderIssue_try_fault:
  "isl (verifyWrongOrderIssue_try cfg now od ws ci) \<longleftrightarrow>
     od = None \<or> (\<exists>d. od = Some d \<and> \<not> problemFlag d \<and> ci = None)"
  by (auto simp: verifyWrongOrderIssue_try_def Let_def split: option.splits)

lemma verifyMissingItemIssue_try_fault:
  "isl (verifyMissingItemIssue_try cfg now od ms ci) \<longleftrightarrow>
     od = None \<or> ms = None
     \<or> (\<exists>d claimed. od = Some d \<and> ms = Some claimed
           \<and> (claimed = [] \<or> filterValidMissingItems d claimed \<noteq> [])
           \<and> \<not> problemFlag d \<and> ci = None)"
  by (auto simp: verifyMissingItemIssue_try_def Let_def split: option.splits)

lemma verifyLateDeliveryIssue_try_fault:
  "isl (verifyLateDeliveryIssue_try cfg now od ci) \<longleftrightarrow> od = None"
  by (auto simp: verifyLateDeliveryIssue_try_def Let_def split: option.splits)

text \<open>
  Claim C4. Whenever the body of a verify operation (wrong order, missing item, late
  delivery) faults, the operation still returns a result, with \<open>verified = True\<close> and the
  benefit-of-the-doubt reason: the fault is not propagated and the complaint is not
  rejected.
\<close>

theorem verify_fail_open:
  "(isl (verifyWrongOrderIssue_try cfg now od ws ci) \<longrightarrow>
      verified (verifyWrongOrderIssue cfg now od ws ci)
      \<and> reason (verifyWrongOrderIssue cfg now od ws ci) = BenefitOfDoubt)
   \<and> (isl (verifyMissingItemIssue_try cfg now od' ms ci') \<longrightarrow>
      verified (verifyMissingItemIssue cfg now od' ms ci')
      \<and> reason (verifyMissingItemIssue cfg now od' ms ci') = BenefitOfDoubt)
   \<and> (isl (verifyLateDeliveryIssue_try cfg now od'' ci'') \<longrightarrow>
      verified (verifyLateDeliveryIssue cfg now od'' ci'')
      \<and> reason (verifyLateDeliveryIssue cfg now od'' ci'') = BenefitOfDoubt)"
  by (auto simp: verifyWrongOrderIssue_def verifyMissingItemIssue_def
      verifyLateDeliveryIssue_def result_def lateResult_def split: sum.splits)

text \<open>
  The three faults at concrete inputs: no customer for an unflagged order, no claim list,
  no order.
\<close>

theorem verify_fail_open_witness:
  "isl (verifyWrongOrderIssue_try config 2400000 (Some pizzaOrder) (Some []) None)
   \<and> isl (verifyMissingItemIssue_try config 2400000 (Some pizzaOrder) None (Some regularCustomer))
   \<and> isl (verifyLateDeliveryIssue_try config 2400000 None (Some regularCustomer))
   \<and> verified (verifyWrongOrderIssue config 2400000 (Some pizzaOrder) (Some []) None)
   \<and> reason (verifyWrongOrderIssue config 2400000 (Some pizzaOrder) (Some []) None)
       = BenefitOfDoubt
   \<and> verified (verifyMissingItemIssue config 2400000 (Some pizzaOrder) None (Some regularCustomer))
   \<and> verified (verifyLateDeliveryIssue config 2400000 None (Some regularCustomer))"
proof -
  have w: "isl (verifyWrongOrderIssue_try config 2400000 (Some pizzaOrder) (Some []) None)"
    by (simp add: verifyWrongOrderIssue_try_fault pizzaOrder_def)
  have m: "isl (verifyMissingItemIssue_try config 2400000 (Some pizzaOrder) None
                  (Some regularCustomer))"
    by (simp add: verifyMissingItemIssue_try_fault)
  have l: "isl (verifyLateDeliveryIssue_try config 2400000 None (Some regularCustomer))"
    by (simp add: verifyLateDeliveryIssue_try_fault)
  from w m l
    verify_fail_open [where cfg = config and now = 2400000 and od = "Some pizzaOrder"
      and ws = "Some []" and ci = None and od' = "Some pizzaOrder" and ms = None
      and ci' = "Some regularCustomer" and od'' = None and ci'' = "Some regularCustomer"]
  show ?thesis by simp
qed

section \<open>Verification of a late delivery\<close>

lemma verifyLateDeliveryIssue_cases:
  "verifyLateDeliveryIssue config now (Some od) ci =
     (if latenessOf od \<le> 0 then lateResult False OnTimeOrEarly 0
      else if latenessOf od < 10
      then lateResult False (WithinAcceptableRange (mathRound (latenessOf od))) (latenessOf od)
      else if of_int (now - dateOf (deliveredAt od)) / (1000 * 60 * 60) > (24 :: rat)
      then lateResult False TooLongAfterDelivery (latenessOf od)
      else lateResult True (DeliveryWasLate (mathRound (latenessOf od))) (latenessOf od))"
  by (simp add: verifyLateDeliveryIssue_def verifyLateDeliveryIssue_try_def config_def Let_def)

lemma latenessOf_examples:
  "latenessOf earlyPizzaOrder = - 5" "latenessOf slightlyLatePizzaOrder = 13 / 2"
  "latenessOf pizzaOrder = 10" "latenessOf latePizzaOrder = 30"
  by (simp_all add: latenessOf_def dateOf_def earlyPizzaOrder_def slightlyLatePizzaOrder_def
      pizzaOrder_def latePizzaOrder_def)

lemma deliveredAt_pizzaOrder: "dateOf (deliveredAt pizzaOrder) = 2400000"
  by (simp add: dateOf_def pizzaOrder_def)

text \<open>
  Claim C6, as amended. For every lateness below 10 minutes \<^verbatim>\<open>verifyLateDeliveryIssue\<close>
  returns \<open>verified = False\<close>: a lateness of at most 0 fails as on time or early, a positive
  lateness below 10 fails with the rounded lateness in the message. At exactly 10 minutes
  the lateness checks pass (the comparison with the threshold is strict), and the
  complaint is verified exactly when it is made within 24 hours of the delivery.
\<close>

theorem verifyLateDeliveryIssue_below_threshold:
  "(latenessOf od \<le> 0 \<longrightarrow>
      verifyLateDeliveryIssue config now (Some od) ci = lateResult False OnTimeOrEarly 0)
   \<and> (0 < latenessOf od \<and> latenessOf od < 10 \<longrightarrow>
      verifyLateDeliveryIssue config now (Some od) ci =
        lateResult False (WithinAcceptableRange (mathRound (latenessOf od))) (latenessOf od))
   \<and> (latenessOf od < 10 \<longrightarrow> \<not> verified (verifyLateDeliveryIssue config now (Some od) ci))
   \<and> (latenessOf od = 10 \<longrightarrow>
      verified (verifyLateDeliveryIssue config now (Some od) ci) =
        (of_int (now - dateOf (deliveredAt od)) / (1000 * 60 * 60) \<le> (24 :: rat)))"
  by (auto simp: verifyLateDeliveryIssue_cases lateResult_def)

text \<open>
  The three cases at deliveries 5 minutes early, 6.5 minutes late (rounded to 7) and
  exactly 10 minutes late.
\<close>

theorem verifyLateDeliveryIssue_below_threshold_witness:
  "latenessOf earlyPizzaOrder \<le> 0
   \<and> verifyLateDeliveryIssue config 2400000 (Some earlyPizzaOrder) (Some proPlusCustomer)
       = lateResult False OnTimeOrEarly 0
   \<and> 0 < latenessOf slightlyLatePizzaOrder \<and> latenessOf slightlyLatePizzaOrder < 10
   \<and> verifyLateDeliveryIssue config 2400000 (Some slightlyLatePizzaOrder) (Some proPlusCustomer)
       = lateResult False (WithinAcceptableRange 7) (13 / 2)
   \<and> latenessOf pizzaOrder = 10
   \<and> verified (verifyLateDeliveryIssue config 2400000 (Some pizzaOrder) (Some proPlusCustomer))"
  using verifyLateDeliveryIssue_below_threshold
          [of earlyPizzaOrder 2400000 "Some proPlusCustomer"]
        verifyLateDeliveryIssue_below_threshold
          [of slightlyLatePizzaOrder 2400000 "Some proPlusCustomer"]
        verifyLateDeliveryIssue_below_threshold
          [of pizzaOrder 2400000 "Some proPlusCustomer"]
  by (simp add: latenessOf_examples mathRound_def deliveredAt_pizzaOrder)

text \<open>
  Claim C6 as stated fails at a lateness of exactly 10 minutes: the order was estimated
  for minute 30 and delivered at minute 40, the complaint is made at the delivery, and
  the result is \<open>verified = True\<close>.
\<close>

theorem verifyLateDeliveryIssue_exactly_ten_verified:
  "latenessOf pizzaOrder \<le> 10
   \<and> verified (verifyLateDeliveryIssue config 2400000 (Some pizzaOrder) (Some regularCustomer))"
  by (simp add: verifyLateDeliveryIssue_cases latenessOf_def dateOf_def pizzaOrder_def
      lateResult_def)

section \<open>Compensation for a late delivery\<close>

lemma decideSolution_late:
  "decideSolution config now LATE_DELIVERY (Some od) ci (Some e) =
     (if suppliedLateness e > 90
      then mkSolution REFUND (totalAmount od) (ExtremeDelay (mathRound (suppliedLateness e)))
      else mkSolution CREDIT
             (min (totalAmount od *
                    (if suppliedLateness e > 60 then 3 / 10
                     else if suppliedLateness e > 30 then 2 / 10
                     else if suppliedLateness e > 15 then 1 / 10 else 0)) 200)
             (DeliveryDelay (mathRound (suppliedLateness e))))"
  by (simp add: decideSolution_def decideSolution_try_def config_def Let_def
      suppliedLateness_def)

text \<open>
  Claim C5. For every order and caller-supplied lateness \<open>l\<close>: above 90 minutes the
  decision for a late delivery is a refund of exactly the order total; otherwise it is a
  credit of \<open>min (total * rate) 200\<close>, where the rate is 0.3 above 60 minutes, 0.2 above
  30, 0.1 above 15 and 0 otherwise. A lateness in (60, 90] on an order of 500 gives a
  credit of 150.
\<close>

theorem decideSolution_late_delivery:
  assumes "latenessMinutes e = Some l"
  shows "(90 < l \<longrightarrow>
            solutionType (decideSolution config now LATE_DELIVERY (Some od) ci (Some e)) = REFUND
            \<and> amount (decideSolution config now LATE_DELIVERY (Some od) ci (Some e))
                = totalAmount od)
         \<and> (l \<le> 90 \<longrightarrow>
            solutionType (decideSolution config now LATE_DELIVERY (Some od) ci (Some e)) = CREDIT
            \<and> amount (decideSolution config now LATE_DELIVERY (Some od) ci (Some e))
                = min (totalAmount od *
                        (if 60 < l then 3 / 10 else if 30 < l then 2 / 10
                         else if 15 < l then 1 / 10 else 0)) 200)
         \<and> (60 < l \<and> l \<le> 90 \<and> totalAmount od = 500 \<longrightarrow>
            solutionType (decideSolution config now LATE_DELIVERY (Some od) ci (Some e)) = CREDIT
            \<and> amount (decideSolution config now LATE_DELIVERY (Some od) ci (Some e)) = 150)"
  using assms by (simp add: decideSolution_late mkSolution_def suppliedLateness_def)

text \<open>A lateness of 75 minutes on an order of 500, and a lateness of 91 minutes.\<close>

theorem decideSolution_late_delivery_witness:
  "latenessMinutes (entitiesLate 75) = Some 75 \<and> (60 :: rat) < 75 \<and> (75 :: rat) \<le> 90
   \<and> totalAmount pizzaOrder = 500
   \<and> solutionType (decideSolution config 2400000 LATE_DELIVERY (Some pizzaOrder)
                     (Some regularCustomer) (Some (entitiesLate 75))) = CREDIT
   \<and> amount (decideSolution config 2400000 LATE_DELIVERY (Some pizzaOrder)
               (Some regularCustomer) (Some (entitiesLate 75))) = 150
   \<and> latenessMinutes (entitiesLate 91) = Some 91 \<and> (90 :: rat) < 91
   \<and> solutionType (decideSolution config 2400000 LATE_DELIVERY (Some pizzaOrder)
                     (Some regularCustomer) (Some (entitiesLate 91))) = REFUND
   \<and> amount (decideSolution config 2400000 LATE_DELIVERY (Some pizzaOrder)
               (Some regularCustomer) (Some (entitiesLate 91))) = 500"
proof -
  have e75: "latenessMinutes (entitiesLate 75) = Some 75"
    and e91: "latenessMinutes (entitiesLate 91) = Some 91"
    by (simp_all add: entitiesLate_def)
  have total: "totalAmount pizzaOrder = 500"
    by (simp add: pizzaOrder_def)
  from decideSolution_late_delivery [OF e75, of 2400000 pizzaOrder "Some regularCustomer"]
       decideSolution_late_delivery [OF e91, of 2400000 pizzaOrder "Some regularCustomer"]
       e75 e91 total
  show ?thesis by simp
qed

section \<open>Escalation and refund eligibility: the fail-closed default\<close>

lemma shouldAutoEscalate_try_fault: "isl (shouldAutoEscalate_try cfg s) \<longleftrightarrow> customerInfo s = None"
  by (simp add: shouldAutoEscalate_try_def split: option.splits)

lemma determinePriority_try_fault: "isl (determinePriority_try cfg s) \<longleftrightarrow> customerInfo s = None"
  by (simp add: determinePriority_try_def split: option.splits)

lemma checkRefundEligibility_try_fault:
  "isl (checkRefundEligibility_try cfg now od ci) \<longleftrightarrow>
     od = None
     \<or> (\<exists>d. od = Some d \<and> \<not> refunded d
           \<and> \<not> of_int (now - orderedAt d) / (1000 * 60 * 60 * 24)
                 > refundEligibilityDays (thresholds cfg)
           \<and> ci = None)"
  by (auto simp: checkRefundEligibility_try_def Let_def split: option.splits)

text \<open>
  Claim C10. Whenever its body faults, \<^verbatim>\<open>shouldAutoEscalate\<close> returns false,
  \<^verbatim>\<open>determinePriority\<close> returns MEDIUM and \<^verbatim>\<open>checkRefundEligibility\<close> returns
  \<open>eligible = False\<close> with no amount: these operations fail closed.
\<close>

theorem escalation_and_refund_fail_closed:
  "(isl (shouldAutoEscalate_try cfg s) \<longrightarrow> shouldAutoEscalate cfg s = False)
   \<and> (isl (determinePriority_try cfg s') \<longrightarrow> determinePriority cfg s' = MEDIUM)
   \<and> (isl (checkRefundEligibility_try cfg now od ci) \<longrightarrow>
        eligible (checkRefundEligibility cfg now od ci) = False
        \<and> refundAmount (checkRefundEligibility cfg now od ci) = None)"
  by (auto simp: shouldAutoEscalate_def determinePriority_def checkRefundEligibility_def
      notEligible_def split: sum.splits)

text \<open>
  A session without customer information faults in both escalation operations, although
  it has two resolutions; a refund check without customer information faults too.
\<close>

theorem escalation_and_refund_fail_closed_witness:
  "isl (shouldAutoEscalate_try config orphanSession)
   \<and> isl (determinePriority_try config orphanSession)
   \<and> isl (checkRefundEligibility_try config 2400000 (Some pizzaOrder) None)
   \<and> length (resolutions orphanSession) = 2
   \<and> shouldAutoEscalate config orphanSession = False
   \<and> determinePriority config orphanSession = MEDIUM
   \<and> eligible (checkRefundEligibility config 2400000 (Some pizzaOrder) None) = False"
proof -
  have a: "isl (shouldAutoEscalate_try config orphanSession)"
    by (simp add: shouldAutoEscalate_try_fault orphanSession_def freshSession_def)
  have b: "isl (determinePriority_try config orphanSession)"
    by (simp add: determinePriority_try_fault orphanSession_def freshSession_def)
  have c: "isl (checkRefundEligibility_try config 2400000 (Some pizzaOrder) None)"
    by (simp add: checkRefundEligibility_try_fault pizzaOrder_def config_def)
  have d: "length (resolutions orphanSession) = 2"
    by (simp add: orphanSession_def)
  from a b c d
    escalation_and_refund_fail_closed [of config orphanSession orphanSession 2400000
      "Some pizzaOrder" None]
  show ?thesis by simp
qed

section \<open>Trust shortcuts\<close>







section \<open>Substrings\<close>

text \<open>\<open>stringIncludes\<close> is the substring test.\<close>

lemma startsWith_iff: "startsWith s sub \<longleftrightarrow> (\<exists>post. s = sub @ post)"
  by (induction s sub rule: startsWith.induct) auto

lemma stringIncludes_iff: "stringIncludes s sub \<longleftrightarrow> (\<exists>pre post. s = pre @ sub @ post)"
proof (induction s)
  case Nil
  then show ?case by simp
next
  case (Cons x xs)
  show ?case
  proof
    assume "stringIncludes (x # xs) sub"
    then consider "startsWith (x # xs) sub" | "stringIncludes xs sub" by auto
    then show "\<exists>pre post. x # xs = pre @ sub @ post"
    proof cases
      case 1
      then obtain post where "x # xs = sub @ post" by (auto simp: startsWith_iff)
      then have "x # xs = [] @ sub @ post" by simp
      then show ?thesis by blast
    next
      case 2
      then obtain pre post where "xs = pre @ sub @ post" using Cons.IH by auto
      then have "x # xs = (x # pre) @ sub @ post" by simp
      then show ?thesis by blast
    qed
  next
    assume "\<exists>pre post. x # xs = pre @ sub @ post"
    then obtain pre post where eq: "x # xs = pre @ sub @ post" by auto
    show "stringIncludes (x # xs) sub"
    proof (cases pre)
      case Nil
      with eq have "startsWith (x # xs) sub" by (auto simp: startsWith_iff)
      then show ?thesis by simp
    next
      case (Cons p ps)
      with eq have "xs = ps @ sub @ post" by simp
      then have "stringIncludes xs sub" using Cons.IH by blast
      then show ?thesis by simp
    qed
  qed
qed

section \<open>Item plausibility\<close>

text \<open>
  The filter of the code keeps a claimed item only when its lowercase name is equal to
  the lowercase name of an ordered item; every item it keeps is kept by the substring
  filter of the specification too. A non-empty claim list of which the code keeps nothing
  is rejected, whoever the customer is.
\<close>

lemma filterValidMissingItems_exact:
  "filterValidMissingItems od claimed =
     filter (\<lambda>item. \<exists>i \<in> set (items od). toLowerCase (name i) = toLowerCase item) claimed"
  unfolding filterValidMissingItems_def orderedItems_def arrayIncludes_def
  by (rule filter_cong) (force simp: image_iff)+

lemma stringIncludes_refl: "stringIncludes s s"
proof -
  have "s = [] @ s @ []" by simp
  then show ?thesis unfolding stringIncludes_iff by blast
qed

lemma filterValidMissingItems_subset_spec:
  "set (filterValidMissingItems od claimed) \<subseteq> set (filterValidMissingItems_spec od claimed)"
  by (auto simp: filterValidMissingItems_def filterValidMissingItems_spec_def
      arrayIncludes_def list_ex_iff intro: stringIncludes_refl)

lemma verifyMissingItemIssue_rejects_unmatched:
  "claimed \<noteq> [] \<Longrightarrow> filterValidMissingItems od claimed = [] \<Longrightarrow>
   verifyMissingItemIssue cfg now (Some od) (Some claimed) ci = result False ItemsNotInOrder"
  by (simp add: verifyMissingItemIssue_def verifyMissingItemIssue_try_def)

lemma toLowerCase_examples:
  "toLowerCase ''Margherita Pizza'' = ''margherita pizza''"
  "toLowerCase ''pizza'' = ''pizza''"
  "toLowerCase ''burger'' = ''burger''"
  "toLowerCase ''Free Dip'' = ''free dip''"
  "toLowerCase ''dip'' = ''dip''"
  by (simp_all add: toLowerCase_def lowerChar_def)

lemma items_pizzaOrder:
  "items pizzaOrder = [\<lparr> name = ''Margherita Pizza'', price = 299, quantity = 1 \<rparr>]"
  by (simp add: pizzaOrder_def)

text \<open>
  Claim C7 at the claimed item "pizza" against an order of one "Margherita Pizza". The
  claimed name is a substring of the ordered name, so the filter of the claim keeps it;
  the code tests membership in the array of ordered names, keeps nothing and rejects the
  complaint as naming items that were not ordered, while \<^verbatim>\<open>calculateAffectedItemsAmount\<close>
  matches the same name against the same order by substring and prices it at 299.
\<close>

theorem verifyMissingItemIssue_not_substring:
  "filterValidMissingItems_spec pizzaOrder [''pizza''] = [''pizza'']
   \<and> filterValidMissingItems pizzaOrder [''pizza''] = []
   \<and> verifyMissingItemIssue config 2400000 (Some pizzaOrder) (Some [''pizza''])
        (Some regularCustomer) = result False ItemsNotInOrder
   \<and> calculateAffectedItemsAmount pizzaOrder (Some [''pizza'']) = 299"
proof -
  have s: "filterValidMissingItems_spec pizzaOrder [''pizza''] = [''pizza'']"
    by (simp add: filterValidMissingItems_spec_def orderedItems_def items_pizzaOrder
        toLowerCase_examples)
  have f: "filterValidMissingItems pizzaOrder [''pizza''] = []"
    by (simp add: filterValidMissingItems_def orderedItems_def arrayIncludes_def
        items_pizzaOrder toLowerCase_examples)
  have v: "verifyMissingItemIssue config 2400000 (Some pizzaOrder) (Some [''pizza''])
        (Some regularCustomer) = result False ItemsNotInOrder"
    using f by (simp add: verifyMissingItemIssue_rejects_unmatched)
  have a: "calculateAffectedItemsAmount pizzaOrder (Some [''pizza'']) = 299"
    by (simp add: calculateAffectedItemsAmount_def items_pizzaOrder toLowerCase_examples)
  from s f v a show ?thesis by simp
qed

section \<open>Affected amount\<close>

text \<open>
  The loop computes the sum over the matched items. The result agrees with the
  specification whenever no item matches or the matched sum is not 0, in particular for
  every order whose prices and quantities are positive.
\<close>

lemma affectedTotal_sum:
  "affectedTotal (map toLowerCase names) xs acc =
     acc + sum_list (map (\<lambda>item. price item * quantity item) (filter (itemMatches names) xs))"
  by (induction xs arbitrary: acc) (simp_all add: itemMatches_def)

lemma calculateAffectedItemsAmount_eq:
  "calculateAffectedItemsAmount od (Some names) =
     (if names = [] then 0
      else if sum_list (map (\<lambda>item. price item * quantity item)
                          (filter (itemMatches names) (items od))) = 0
      then totalAmount od * (3 / 10)
      else sum_list (map (\<lambda>item. price item * quantity item)
                       (filter (itemMatches names) (items od))))"
  by (simp add: calculateAffectedItemsAmount_def affectedTotal_sum Let_def)

lemma calculateAffectedItemsAmount_spec:
  assumes "filter (itemMatches names) (items od) = []
           \<or> sum_list (map (\<lambda>item. price item * quantity item)
                          (filter (itemMatches names) (items od))) \<noteq> 0"
  shows "calculateAffectedItemsAmount od (Some names) = affectedAmount_spec od names"
  using assms by (auto simp: calculateAffectedItemsAmount_eq affectedAmount_spec_def)

lemma sum_list_pos_rat:
  fixes xs :: "rat list"
  shows "xs \<noteq> [] \<Longrightarrow> (\<And>x. x \<in> set xs \<Longrightarrow> 0 < x) \<Longrightarrow> 0 < sum_list xs"
  by (induction xs) (auto intro: add_pos_nonneg sum_list_nonneg less_imp_le)

lemma calculateAffectedItemsAmount_spec_positive:
  assumes "\<And>item. item \<in> set (items od) \<Longrightarrow> 0 < price item \<and> 0 < quantity item"
  shows "calculateAffectedItemsAmount od (Some names) = affectedAmount_spec od names"
proof (cases "filter (itemMatches names) (items od) = []")
  case True
  then show ?thesis by (simp add: calculateAffectedItemsAmount_spec)
next
  case False
  have "0 < sum_list (map (\<lambda>item. price item * quantity item)
                        (filter (itemMatches names) (items od)))"
    using False assms by (intro sum_list_pos_rat) auto
  then show ?thesis by (simp add: calculateAffectedItemsAmount_spec)
qed

lemma calculateAffectedItemsAmount_pizza:
  "calculateAffectedItemsAmount pizzaOrder (Some [''pizza'']) = 299"
  by (simp add: calculateAffectedItemsAmount_eq itemMatches_def items_pizzaOrder
      toLowerCase_examples)

lemma decideSolution_wrong_order_no_items:
  assumes "wrongItems e = None \<or> wrongItems e = Some []"
    and "restaurantCloseTime od = None" and "membershipTier ci = REGULAR"
  shows "decideSolution cfg now WRONG_ORDER (Some od) (Some ci) (Some e) =
           mkSolution REFUND (totalAmount od) WrongItemsInOrder"
  using assms
  by (auto simp: decideSolution_def decideSolution_try_def issueReason_def Let_def)

lemma items_freeDipOrder:
  "items freeDipOrder = [\<lparr> name = ''Margherita Pizza'', price = 500, quantity = 1 \<rparr>,
                          \<lparr> name = ''Free Dip'', price = 0, quantity = 1 \<rparr>]"
    "totalAmount freeDipOrder = 500"
  by (simp_all add: freeDipOrder_def pizzaOrder_def)

text \<open>
  Claim C8 at an order with a complimentary item. The claimed name "dip" matches the
  item "Free Dip", priced 0, so the sum over the matched items is 0; the code tests the
  sum, not whether an item matched, and returns 30 percent of the order total, 150.
\<close>

theorem calculateAffectedItemsAmount_free_item:
  "filter (itemMatches [''dip'']) (items freeDipOrder)
     = [\<lparr> name = ''Free Dip'', price = 0, quantity = 1 \<rparr>]
   \<and> affectedAmount_spec freeDipOrder [''dip''] = 0
   \<and> calculateAffectedItemsAmount freeDipOrder (Some [''dip'']) = 150"
  by (simp add: calculateAffectedItemsAmount_eq affectedAmount_spec_def itemMatches_def
      items_freeDipOrder toLowerCase_examples)

section \<open>Auto-escalation\<close>



lemma isFrustrated_iff:
  "isFrustrated msg \<longleftrightarrow> (\<exists>p \<in> set frustrationIndicators. stringIncludes msg p)"
  by (simp add: isFrustrated_def list_ex_iff)








section \<open>The message pipeline\<close>

text \<open>
  The resolution log after a message, in both modes. The handler of a wrong-order message
  appends a refund of the order total; no other handler touches the log, and none calls
  the decision engine.
\<close>

lemma resolveOrderId_cong:
  "resolveOrderId (s \<lparr> lastActivityAt := a \<rparr>) ents = resolveOrderId s ents"
  "resolveOrderId (s \<lparr> conversationHistory := h \<rparr>) ents = resolveOrderId s ents"
  by (simp_all add: resolveOrderId_def)

lemma handleWrongOrderIntent_demo:
  "demoMode cfg \<Longrightarrow>
   handleWrongOrderIntent cfg ext now s ents st =
     (case resolveOrderId s ents of
        None \<Rightarrow> (NoOrdersReply, s, st)
      | Some oid \<Rightarrow>
          (WrongOrderReply (totalAmount (getOrderDetails ext oid))
             (restaurantName (getOrderDetails ext oid)),
           s \<lparr> resolutions := resolutions s @ [refundOf ext now oid] \<rparr>, st))"
  by (simp add: handleWrongOrderIntent_def refundOf_def Let_def split: option.splits)

lemma handleWrongOrderIntent_persisted:
  "\<not> demoMode cfg \<Longrightarrow> sessionsTable st (sessionId s) = Some row \<Longrightarrow>
   handleWrongOrderIntent cfg ext now s ents st =
     (case resolveOrderId s ents of
        None \<Rightarrow> (NoOrdersReply, s, st)
      | Some oid \<Rightarrow>
          (WrongOrderReply (totalAmount (getOrderDetails ext oid))
             (restaurantName (getOrderDetails ext oid)),
           s,
           st \<lparr> sessionsTable := (sessionsTable st)
                  (sessionId s \<mapsto> row \<lparr> resolutions := resolutions row @ [refundOf ext now oid],
                                          lastActivityAt := now \<rparr>) \<rparr>))"
  by (simp add: handleWrongOrderIntent_def addResolutionToSession_def refundOf_def Let_def
      split: option.splits)

lemma postMessage_resolutions_demo:
  assumes "demoMode cfg" and "sessions st sid = Some s"
  shows "resolutionsOf cfg (snd (postMessage cfg ext now intent ents sid msg st)) sid =
           (if intent = WRONG_ORDER
            then (case resolveOrderId s ents of
                    None \<Rightarrow> resolutions s
                  | Some oid \<Rightarrow> resolutions s @ [refundOf ext now oid])
            else resolutions s)"
  using assms
  by (cases intent)
     (simp_all add: postMessage_def lookupSession_def pushMessage_def commit_def handleIntent_def
        handleWrongOrderIntent_demo resolveOrderId_cong resolutionsOf_def Let_def
        split: option.splits)

lemma postMessage_resolutions_persisted:
  assumes "\<not> demoMode cfg" and "sessionsTable st sid = Some s" and "sessionId s = sid"
  shows "resolutionsOf cfg (snd (postMessage cfg ext now intent ents sid msg st)) sid =
           (if intent = WRONG_ORDER
            then (case resolveOrderId s ents of
                    None \<Rightarrow> resolutions s
                  | Some oid \<Rightarrow> resolutions s @ [refundOf ext now oid])
            else resolutions s)"
  using assms
  by (cases intent)
     (simp_all add: postMessage_def lookupSession_def getSession_def pushMessage_def
        addMessageToSession_def commit_def handleIntent_def
        handleWrongOrderIntent_persisted resolveOrderId_cong resolutionsOf_def Let_def
        split: option.splits)

lemma postMessage_reply_demo:
  assumes "demoMode cfg" and "sessions st sid = Some s"
  shows "fst (postMessage cfg ext now intent ents sid msg st) =
           Inr \<lparr> replyResponse = fst (handleIntent cfg ext now intent s ents st),
                 replyEscalated = (escalated s \<or> intent = ESCALATION_REQUEST) \<rparr>"
  using assms
  by (cases intent)
     (simp_all add: postMessage_def lookupSession_def pushMessage_def commit_def handleIntent_def
        handleWrongOrderIntent_demo resolveOrderId_cong Let_def split: option.splits)

lemma postMessage_reply_persisted:
  assumes "\<not> demoMode cfg" and "sessionsTable st sid = Some s" and "sessionId s = sid"
  shows "fst (postMessage cfg ext now intent ents sid msg st) =
           Inr \<lparr> replyResponse = fst (handleIntent cfg ext now intent s ents st),
                 replyEscalated = (escalated s \<or> intent = ESCALATION_REQUEST) \<rparr>"
  using assms
  by (cases intent)
     (simp_all add: postMessage_def lookupSession_def getSession_def pushMessage_def
        addMessageToSession_def commit_def handleIntent_def
        handleWrongOrderIntent_persisted resolveOrderId_cong Let_def
        split: option.splits)

text \<open>
  Claim C1, as amended. The message handler runs neither the verification engine nor the
  solution decision engine. For a wrong-order message whose order id resolves (from the
  entities or the first order of the session) it appends one successful REFUND resolution
  of the full order total to the resolution log of the session, whatever the order, the
  customer and the claimed items are, and nothing when no order id resolves. For a
  missing-item, late-delivery or refund-request message it returns a canned reply and
  appends no resolution.
\<close>

theorem postMessage_pipeline:
  assumes "lookupSession cfg st sid = Inr (OwnSession s)" and "sessionId s = sid"
  shows "(intent = WRONG_ORDER \<longrightarrow>
            resolutionsOf cfg (snd (postMessage cfg ext now intent ents sid msg st)) sid =
              (case resolveOrderId s ents of
                 None \<Rightarrow> resolutions s
               | Some oid \<Rightarrow> resolutions s @ [refundOf ext now oid]))
         \<and> (intent = MISSING_ITEM \<longrightarrow>
            resolutionsOf cfg (snd (postMessage cfg ext now intent ents sid msg st)) sid =
              resolutions s
            \<and> fst (postMessage cfg ext now intent ents sid msg st) =
                Inr \<lparr> replyResponse = MissingItemReply, replyEscalated = escalated s \<rparr>)
         \<and> (intent = LATE_DELIVERY \<longrightarrow>
            resolutionsOf cfg (snd (postMessage cfg ext now intent ents sid msg st)) sid =
              resolutions s
            \<and> fst (postMessage cfg ext now intent ents sid msg st) =
                Inr \<lparr> replyResponse = LateDeliveryReply, replyEscalated = escalated s \<rparr>)
         \<and> (intent = REFUND_REQUEST \<longrightarrow>
            resolutionsOf cfg (snd (postMessage cfg ext now intent ents sid msg st)) sid =
              resolutions s
            \<and> fst (postMessage cfg ext now intent ents sid msg st) =
                Inr \<lparr> replyResponse = RefundReply, replyEscalated = escalated s \<rparr>)"
proof (cases "demoMode cfg")
  case True
  with assms have "sessions st sid = Some s"
    by (auto simp: lookupSession_def split: option.splits if_splits)
  with True show ?thesis
    by (simp add: postMessage_resolutions_demo postMessage_reply_demo handleIntent_def)
next
  case False
  with assms have "sessionsTable st sid = Some s"
    by (auto simp: lookupSession_def getSession_def split: option.splits)
  with False assms(2) show ?thesis
    by (simp add: postMessage_resolutions_persisted postMessage_reply_persisted handleIntent_def)
qed

lemma demoStore_lookup:
  "lookupSession config (demoStore ci) ''s1'' = Inr (OwnSession (freshSession (Some ci)))"
  "sessions (demoStore ci) ''s1'' = Some (freshSession (Some ci))"
  "demoMode config"
  by (simp_all add: lookupSession_def demoStore_def emptyStore_def config_def)

lemma freshSession_fields:
  "sessionId (freshSession info) = ''s1''" "resolutions (freshSession info) = []"
  "resolveOrderId (freshSession info) noEntities = Some ''order_67890''"
  "resolveOrderId (freshSession info) missingPizzaEntities = Some ''order_67890''"
  by (simp_all add: freshSession_def resolveOrderId_def noEntities_def missingPizzaEntities_def)

lemma refundOf_demo:
  "refundOf demoCollaborators now oid =
     \<lparr> resolutionType = REFUND, resolutionOrderId = oid, resolutionAmount = 500,
       resolutionTimestamp = now, success = True \<rparr>"
  by (simp add: refundOf_def demoCollaborators_def pizzaOrder_def)

text \<open>A wrong-order and a missing-item message on a stored session.\<close>

theorem postMessage_pipeline_witness:
  "lookupSession config (demoStore riskyCustomer) ''s1''
     = Inr (OwnSession (freshSession (Some riskyCustomer)))
   \<and> sessionId (freshSession (Some riskyCustomer)) = ''s1''
   \<and> resolutionsOf config
        (snd (postMessage config demoCollaborators 2400000 WRONG_ORDER noEntities ''s1''
                ''my order is wrong'' (demoStore riskyCustomer))) ''s1''
       = [\<lparr> resolutionType = REFUND, resolutionOrderId = ''order_67890'',
             resolutionAmount = 500, resolutionTimestamp = 2400000, success = True \<rparr>]
   \<and> resolutionsOf config
        (snd (postMessage config demoCollaborators 2400000 MISSING_ITEM missingPizzaEntities
                ''s1'' ''my pizza is missing'' (demoStore riskyCustomer))) ''s1'' = []"
  using postMessage_pipeline [where cfg = config and st = "demoStore riskyCustomer"
          and sid = "''s1''" and s = "freshSession (Some riskyCustomer)"
          and intent = WRONG_ORDER and ext = demoCollaborators and now = 2400000
          and ents = noEntities and msg = "''my order is wrong''"]
        postMessage_pipeline [where cfg = config and st = "demoStore riskyCustomer"
          and sid = "''s1''" and s = "freshSession (Some riskyCustomer)"
          and intent = MISSING_ITEM and ext = demoCollaborators and now = 2400000
          and ents = missingPizzaEntities and msg = "''my pizza is missing''"]
  by (simp add: demoStore_lookup freshSession_fields refundOf_demo)

text \<open>
  Claim C1 as stated fails twice. A wrong-order complaint that the verification engine
  rejects (risk score 0.9) still gets a refund resolution; a missing-item complaint that
  the verification engine accepts, and for which the decision engine yields a refund of
  299, gets no resolution.
\<close>

theorem postMessage_skips_verification:
  "\<not> verified (verifyWrongOrderIssue config 2400000 (Some pizzaOrder) (wrongItems noEntities)
                 (Some riskyCustomer))
   \<and> resolutionsOf config
        (snd (postMessage config demoCollaborators 2400000 WRONG_ORDER noEntities ''s1''
                ''my order is wrong'' (demoStore riskyCustomer))) ''s1''
       = [\<lparr> resolutionType = REFUND, resolutionOrderId = ''order_67890'',
             resolutionAmount = 500, resolutionTimestamp = 2400000, success = True \<rparr>]
   \<and> verified (verifyMissingItemIssue config 2400000 (Some pizzaOrder)
                 (missingItems missingPizzaEntities) (Some regularCustomer))
   \<and> solutionType (decideSolution config 2400000 MISSING_ITEM (Some pizzaOrder)
                     (Some regularCustomer) (Some missingPizzaEntities)) = REFUND
   \<and> amount (decideSolution config 2400000 MISSING_ITEM (Some pizzaOrder)
               (Some regularCustomer) (Some missingPizzaEntities)) = 299
   \<and> resolutionsOf config
        (snd (postMessage config demoCollaborators 2400000 MISSING_ITEM missingPizzaEntities
                ''s1'' ''my pizza is missing'' (demoStore regularCustomer))) ''s1'' = []"
proof -
  have w: "\<not> verified (verifyWrongOrderIssue config 2400000 (Some pizzaOrder)
                          (wrongItems noEntities) (Some riskyCustomer))"
    by (simp add: verifyWrongOrderIssue_def verifyWrongOrderIssue_try_def pizzaOrder_def
        riskyCustomer_def regularCustomer_def config_def dateOf_def result_def)
  have wr: "resolutionsOf config
        (snd (postMessage config demoCollaborators 2400000 WRONG_ORDER noEntities ''s1''
                ''my order is wrong'' (demoStore riskyCustomer))) ''s1''
       = [\<lparr> resolutionType = REFUND, resolutionOrderId = ''order_67890'',
             resolutionAmount = 500, resolutionTimestamp = 2400000, success = True \<rparr>]"
    by (simp add: postMessage_resolutions_demo demoStore_lookup freshSession_fields
        refundOf_demo)
  have f: "filterValidMissingItems pizzaOrder [''Margherita Pizza''] = [''Margherita Pizza'']"
    by (simp add: filterValidMissingItems_def orderedItems_def arrayIncludes_def
        items_pizzaOrder toLowerCase_examples)
  have m: "verified (verifyMissingItemIssue config 2400000 (Some pizzaOrder)
                 (missingItems missingPizzaEntities) (Some regularCustomer))"
    using f
    by (simp add: verifyMissingItemIssue_def verifyMissingItemIssue_try_def
        missingPizzaEntities_def noEntities_def deliveredAt_pizzaOrder
        regularCustomer_def config_def result_def)
  have a: "calculateAffectedItemsAmount pizzaOrder (Some [''Margherita Pizza'']) = 299"
    by (simp add: calculateAffectedItemsAmount_eq itemMatches_def items_pizzaOrder
        toLowerCase_examples)
  have d: "decideSolution config 2400000 MISSING_ITEM (Some pizzaOrder)
             (Some regularCustomer) (Some missingPizzaEntities)
           = mkSolution REFUND 299 MissingItemsInOrder"
    using a
    by (simp add: decideSolution_def decideSolution_try_def missingPizzaEntities_def
        noEntities_def regularCustomer_def issueReason_def pizzaOrder_def)
  have mr: "resolutionsOf config
        (snd (postMessage config demoCollaborators 2400000 MISSING_ITEM missingPizzaEntities
                ''s1'' ''my pizza is missing'' (demoStore regularCustomer))) ''s1'' = []"
    by (simp add: postMessage_resolutions_demo demoStore_lookup freshSession_fields)
  from w wr m d mr show ?thesis by (simp add: mkSolution_def)
qed

section \<open>Session lifecycle\<close>

text \<open>
  Both handlers answer \<open>NotFound\<close> for a session id for which the lookup finds nothing,
  and leave the store as it is. That is not every unknown id: in demo mode an id that
  names an inherited property of the object \<^verbatim>\<open>sessions\<close> is answered 500, and in
  persisted mode so is an id without a row.
\<close>

lemma postMessage_unknown:
  "lookupSession cfg st sid = Inr NoSession \<Longrightarrow>
   postMessage cfg ext now intent ents sid msg st = (Inl NotFound, st)"
  by (simp add: postMessage_def)

lemma endConversation_unknown:
  "lookupSession cfg st sid = Inr NoSession \<Longrightarrow>
   endConversation cfg now sid st = (Inl NotFound, st)"
  by (simp add: endConversation_def)

lemma lookupSession_demo_unknown:
  "demoMode cfg \<Longrightarrow> sessions st sid = None \<Longrightarrow>
   lookupSession cfg st sid = Inr (if isInheritedKey st sid then InheritedValue else NoSession)"
  by (simp add: lookupSession_def)

lemma postMessage_inherited_key:
  "demoMode cfg \<Longrightarrow> sessions st sid = None \<Longrightarrow> isInheritedKey st sid \<Longrightarrow>
   postMessage cfg ext now intent ents sid msg st =
     (Inl InternalError,
      st \<lparr> inheritedLastActivityAt := writeInherited now sid (inheritedLastActivityAt st) \<rparr>)"
  by (simp add: postMessage_def lookupSession_demo_unknown)

lemma endConversation_inherited_key:
  "demoMode cfg \<Longrightarrow> sessions st sid = None \<Longrightarrow> isInheritedKey st sid \<Longrightarrow>
   endConversation cfg now sid st = (Inl InternalError, st)"
  by (simp add: endConversation_def lookupSession_demo_unknown)

lemma unknown_constructor_demo:
  "postMessage config demoCollaborators 2000 GENERAL_QUERY noEntities ''constructor'' ''hello''
     emptyStore
   = (Inl InternalError,
      emptyStore \<lparr> inheritedLastActivityAt := [''constructor'' \<mapsto> 2000] \<rparr>)"
  "endConversation config 2000 ''constructor'' emptyStore = (Inl InternalError, emptyStore)"
proof -
  have k: "isInheritedKey emptyStore ''constructor''"
    by (simp add: isInheritedKey_def arrayIncludes_def objectPrototypeKeys_def)
  have d: "demoMode config" "sessions emptyStore ''constructor'' = None"
    by (simp_all add: config_def emptyStore_def)
  show "postMessage config demoCollaborators 2000 GENERAL_QUERY noEntities ''constructor''
          ''hello'' emptyStore
        = (Inl InternalError,
           emptyStore \<lparr> inheritedLastActivityAt := [''constructor'' \<mapsto> 2000] \<rparr>)"
    using k d by (simp add: postMessage_inherited_key writeInherited_def) (simp add: emptyStore_def)
  show "endConversation config 2000 ''constructor'' emptyStore = (Inl InternalError, emptyStore)"
    using k d by (simp add: endConversation_inherited_key)
qed

lemma postMessage_missing_row:
  "\<not> demoMode cfg \<Longrightarrow> sessionsTable st sid = None \<Longrightarrow>
   postMessage cfg ext now intent ents sid msg st = (Inl InternalError, st)"
  by (simp add: postMessage_def lookupSession_def getSession_def)

lemma endConversation_missing_row:
  "\<not> demoMode cfg \<Longrightarrow> sessionsTable st sid = None \<Longrightarrow>
   endConversation cfg now sid st = (Inl InternalError, st)"
  by (simp add: endConversation_def lookupSession_def getSession_def)

text \<open>
  In demo mode the end of a conversation removes the session from \<^verbatim>\<open>sessions\<close>, so a
  later message to it fails and leaves the store as it is (with \<open>NotFound\<close>, the id of a
  session being no inherited key), and no request for another session brings it back.
\<close>

lemma endConversation_demo:
  "demoMode cfg \<Longrightarrow> sessions st sid = Some s \<Longrightarrow>
   endConversation cfg now sid st = (Inr (), st \<lparr> sessions := (sessions st)(sid := None) \<rparr>)"
  by (simp add: endConversation_def lookupSession_def)

lemma postMessage_after_end_demo:
  assumes "demoMode cfg" and "sessions st sid = Some s" and "\<not> isInheritedKey st sid"
  shows "postMessage cfg ext now' intent ents sid msg (snd (endConversation cfg now sid st))
           = (Inl NotFound, snd (endConversation cfg now sid st))"
  using assms
  by (simp add: endConversation_demo postMessage_unknown lookupSession_def isInheritedKey_def)

lemma postMessage_keeps_unknown_demo:
  assumes "demoMode cfg" and "sessions st sid = None"
  shows "sessions (snd (postMessage cfg ext now intent ents sid' msg st)) sid = None"
proof (cases "sessions st sid'")
  case None
  with assms show ?thesis
    by (cases "isInheritedKey st sid'")
       (simp_all add: postMessage_unknown postMessage_inherited_key lookupSession_demo_unknown)
next
  case (Some s)
  with assms have "sid' \<noteq> sid" by auto
  with assms Some show ?thesis
    by (cases intent)
       (simp_all add: postMessage_def lookupSession_def pushMessage_def commit_def
          handleIntent_def handleWrongOrderIntent_demo Let_def split: option.splits)
qed

lemma endConversation_keeps_unknown_demo:
  assumes "demoMode cfg" and "sessions st sid = None"
  shows "sessions (snd (endConversation cfg now sid' st)) sid = None"
  using assms
  by (cases "sessions st sid'") (simp_all add: endConversation_def lookupSession_def)

lemma startConversation_keeps_unknown_demo:
  assumes "demoMode cfg" and "sessions st sid = None" and "sid' \<noteq> sid"
  shows "sessions (startConversation cfg ext now sid' cust oids info welcome st) sid = None"
  using assms by (simp add: startConversation_def Let_def)

text \<open>
  The persisted mode: a conversation is started, ended at time 1000, and a wrong-order
  message arrives at time 2000.
\<close>

lemma persistedStarted_row:
  "sessionsTable persistedStarted ''s1'' =
     Some \<lparr> sessionId = ''s1'', customerId = ''cust_12345'',
            customerInfo = Some regularCustomer, orderIds = [''order_67890''],
            orderDetails = [pizzaOrder],
            conversationHistory = [\<lparr> role = Assistant, content = ''welcome'', timestamp = 0 \<rparr>],
            createdAt = 0, lastActivityAt = 0, status = Active, escalated = False,
            resolutions = [] \<rparr>"
  by (simp add: persistedStarted_def startConversation_def createSession_def
      addMessageToSession_def persistedConfig_def config_def emptyStore_def
      demoCollaborators_def Let_def)

lemma persistedConfig_mode: "\<not> demoMode persistedConfig"
  by (simp add: persistedConfig_def)

lemma persistedEnded_eval:
  "fst persistedEnded = Inr ()"
  "sessionsTable (snd persistedEnded) ''s1'' =
     Some \<lparr> sessionId = ''s1'', customerId = ''cust_12345'',
            customerInfo = Some regularCustomer, orderIds = [''order_67890''],
            orderDetails = [pizzaOrder],
            conversationHistory = [\<lparr> role = Assistant, content = ''welcome'', timestamp = 0 \<rparr>],
            createdAt = 0, lastActivityAt = 1000, status = Ended, escalated = False,
            resolutions = [] \<rparr>"
  by (simp_all add: persistedEnded_def endConversation_def lookupSession_def getSession_def
      updateSession_def persistedConfig_mode persistedStarted_row Let_def)

text \<open>
  Claim C3 in persisted mode. The end of the conversation succeeds and sets the status of
  the row to \<open>Ended\<close>; the message handler never reads the status, so the later message
  is answered with a reply, and the ended session gets two more messages, a resolution
  and a new time of last activity.
\<close>

theorem postMessage_after_end_persisted:
  "fst persistedEnded = Inr ()
   \<and> map_option status (sessionsTable (snd persistedEnded) ''s1'') = Some Ended
   \<and> historyOf persistedConfig (snd persistedEnded) ''s1''
       = [\<lparr> role = Assistant, content = ''welcome'', timestamp = 0 \<rparr>]
   \<and> resolutionsOf persistedConfig (snd persistedEnded) ''s1'' = []
   \<and> fst persistedPosted
       = Inr \<lparr> replyResponse = WrongOrderReply 500 ''Dominos'', replyEscalated = False \<rparr>
   \<and> map_option status (sessionsTable (snd persistedPosted) ''s1'') = Some Ended
   \<and> map_option lastActivityAt (sessionsTable (snd persistedPosted) ''s1'') = Some 2000
   \<and> historyOf persistedConfig (snd persistedPosted) ''s1''
       = [\<lparr> role = Assistant, content = ''welcome'', timestamp = 0 \<rparr>,
          \<lparr> role = User, content = ''my order is wrong'', timestamp = 2000 \<rparr>,
          \<lparr> role = Assistant, content = ''reply'', timestamp = 2000 \<rparr>]
   \<and> resolutionsOf persistedConfig (snd persistedPosted) ''s1''
       = [\<lparr> resolutionType = REFUND, resolutionOrderId = ''order_67890'',
             resolutionAmount = 500, resolutionTimestamp = 2000, success = True \<rparr>]"
proof -
  have posted: "persistedPosted =
     (Inr \<lparr> replyResponse = WrongOrderReply 500 ''Dominos'', replyEscalated = False \<rparr>,
      (snd persistedEnded) \<lparr> sessionsTable := (sessionsTable (snd persistedEnded))
         (''s1'' \<mapsto>
            \<lparr> sessionId = ''s1'', customerId = ''cust_12345'',
              customerInfo = Some regularCustomer, orderIds = [''order_67890''],
              orderDetails = [pizzaOrder],
              conversationHistory =
                [\<lparr> role = Assistant, content = ''welcome'', timestamp = 0 \<rparr>,
                 \<lparr> role = User, content = ''my order is wrong'', timestamp = 2000 \<rparr>,
                 \<lparr> role = Assistant, content = ''reply'', timestamp = 2000 \<rparr>],
              createdAt = 0, lastActivityAt = 2000, status = Ended, escalated = False,
              resolutions = [\<lparr> resolutionType = REFUND, resolutionOrderId = ''order_67890'',
                               resolutionAmount = 500, resolutionTimestamp = 2000,
                               success = True \<rparr>] \<rparr>) \<rparr>)"
    by (simp add: persistedPosted_def postMessage_def lookupSession_def getSession_def
        pushMessage_def addMessageToSession_def commit_def handleIntent_def
        handleWrongOrderIntent_def addResolutionToSession_def resolveOrderId_def
        persistedConfig_mode persistedEnded_eval noEntities_def demoCollaborators_def
        Let_def)
       (simp add: pizzaOrder_def)
  show ?thesis
    by (simp add: persistedEnded_eval posted historyOf_def resolutionsOf_def
        lookupSession_def getSession_def persistedConfig_mode)
qed

end
